theory Spec2Isabelle
  imports Complex_Main "HOL-Library.AList" "HOL-Library.List_Lexorder" "HOL-Library.Char_ord"
begin

section \<open>The currency converter of \<^verbatim>\<open>script.js\<close>\<close>

text \<open>
  The script keeps its state in three global variables (\<^verbatim>\<open>exchangeRates\<close>,
  \<^verbatim>\<open>currencies\<close>, \<^verbatim>\<open>conversionHistory\<close>), in \<^verbatim>\<open>appState\<close>, in the window variable
  \<^verbatim>\<open>conversionHistoryData\<close> and in the page. The model threads one record through every
  function. An exception is a value of type \<open>exn\<close>; a function that can throw after it
  has changed the state returns a pair of its result and the state it leaves.

  What the model leaves out:
  \<^item> numbers are real numbers, not doubles: rounding, overflow and the negative zero are
    not modelled, \<open>NaN\<close> and the infinities are;
  \<^item> a text is taken by what \<^verbatim>\<open>JSON.parse\<close> makes of it, see \<open>stored_text\<close>;
  \<^item> the strings that \<^verbatim>\<open>Intl\<close> formats, and the HTML built from them, are not computed:
    of the formatting functions the model keeps when they throw;
  \<^item> property reads look at own properties only; the keys that the code reads
    (\<^verbatim>\<open>from\<close>, \<^verbatim>\<open>to\<close>, \<^verbatim>\<open>amount\<close>, \<^verbatim>\<open>currency\<close>, \<^verbatim>\<open>rate\<close>, \<^verbatim>\<open>timestamp\<close>, \<^verbatim>\<open>rates\<close> and currency
    codes) are on no prototype.
\<close>

subsection \<open>Values\<close>

datatype jsnum = NaN | Fin real | PosInf | NegInf

text \<open>\<^verbatim>\<open>!x\<close>, \<^verbatim>\<open>x <= 0\<close>, \<^verbatim>\<open>x > c\<close> and \<^verbatim>\<open>x * r\<close> on numbers.\<close>

definition js_not :: "jsnum \<Rightarrow> bool" where
  "js_not x = (x = NaN \<or> x = Fin 0)"

definition js_le_zero :: "jsnum \<Rightarrow> bool" where
  "js_le_zero x = (case x of Fin r \<Rightarrow> r \<le> 0 | NegInf \<Rightarrow> True | _ \<Rightarrow> False)"

definition js_gt :: "jsnum \<Rightarrow> real \<Rightarrow> bool" where
  "js_gt x c = (case x of Fin r \<Rightarrow> c < r | PosInf \<Rightarrow> True | _ \<Rightarrow> False)"

definition js_times :: "jsnum \<Rightarrow> real \<Rightarrow> jsnum" where
  "js_times x r =
     (case x of
        NaN \<Rightarrow> NaN
      | Fin a \<Rightarrow> Fin (a * r)
      | PosInf \<Rightarrow> (if 0 < r then PosInf else if r < 0 then NegInf else NaN)
      | NegInf \<Rightarrow> (if 0 < r then NegInf else if r < 0 then PosInf else NaN))"

text \<open>
  Data: what \<^verbatim>\<open>JSON.parse\<close> returns, and what the fields of a history record hold
  (besides the \<^verbatim>\<open>Date\<close>). An object lists each of its keys once.
\<close>

datatype json =
    JNull
  | JBool bool
  | JNum jsnum
  | JStr string
  | JArr "json list"
  | JObj "(string \<times> json) list"

text \<open>
  A property of a history record is data or a \<^verbatim>\<open>Date\<close> object; the time value of a
  \<^verbatim>\<open>Date\<close> is a number of milliseconds or, for an invalid date, \<open>None\<close>.
\<close>

datatype field = Data json | DateObj "int option"

type_synonym conversion = "(string \<times> field) list"

datatype exn = Error string | TypeError | RangeError | SyntaxError

text \<open>
  The text in \<^verbatim>\<open>window.conversionHistoryData\<close>: the JSON text of a value, the empty
  string (which \<^verbatim>\<open>if (savedHistory)\<close> takes for absent), or a text that is not JSON
  (truncated, garbled).
\<close>

datatype stored_text = JsonText json | EmptyText | MalformedText

definition JSON_parse :: "stored_text \<Rightarrow> exn + json" where
  "JSON_parse t = (case t of JsonText v \<Rightarrow> Inr v | _ \<Rightarrow> Inl SyntaxError)"

text \<open>
  The library functions on dates and numbers that the model cannot compute:
  \<^verbatim>\<open>Date.parse\<close> (\<open>None\<close> for \<^verbatim>\<open>NaN\<close>), \<^verbatim>\<open>Date.prototype.toISOString\<close> and the
  conversion of a number to a string.
\<close>

record lib =
  Date_parse :: "string \<Rightarrow> int option"
  toISOString :: "int \<Rightarrow> string"
  Number_toString :: "jsnum \<Rightarrow> string"

fun show_nat :: "nat \<Rightarrow> string" where
  "show_nat n =
     (if n < 10 then [''0123456789'' ! n]
      else show_nat (n div 10) @ [''0123456789'' ! (n mod 10)])"

declare show_nat.simps [simp del]

subsection \<open>Configuration\<close>

definition baseURL :: string where
  "baseURL = ''https://api.exchangerate-api.com/v4/latest/''"

text \<open>\<^verbatim>\<open>CURRENCY_INFO\<close>: code and name (symbol and flag are display data).\<close>

definition CURRENCY_INFO :: "(string \<times> string) list" where
  "CURRENCY_INFO =
     [(''USD'', ''US Dollar''), (''EUR'', ''Euro''), (''GBP'', ''British Pound''),
      (''JPY'', ''Japanese Yen''), (''IDR'', ''Indonesian Rupiah''), (''CNY'', ''Chinese Yuan''),
      (''KRW'', ''South Korean Won''), (''SGD'', ''Singapore Dollar''),
      (''MYR'', ''Malaysian Ringgit''), (''THB'', ''Thai Baht''),
      (''AUD'', ''Australian Dollar''), (''CAD'', ''Canadian Dollar''),
      (''CHF'', ''Swiss Franc''), (''INR'', ''Indian Rupee''),
      (''HKD'', ''Hong Kong Dollar''), (''NZD'', ''New Zealand Dollar'')]"

subsection \<open>The network\<close>

text \<open>
  The body of a response, by what the code reads of it: \<^verbatim>\<open>response.json()\<close> rejects;
  the data is \<^verbatim>\<open>null\<close> (reading \<^verbatim>\<open>data.rates\<close> throws); or \<^verbatim>\<open>data.rates\<close> is falsy
  (missing, \<^verbatim>\<open>null\<close>, \<^verbatim>\<open>0\<close>, the empty string, \<^verbatim>\<open>false\<close>), is truthy and no object, or is
  an object. The entries of a rate object are numbers, as the provider publishes them.
\<close>

datatype rates_field = RatesFalsy | RatesNonObject | RatesObject "(string \<times> real) list"

datatype body = NotJson | JsonNull | JsonData rates_field

record response =
  ok :: bool
  status :: nat
  body :: body

text \<open>
  What \<^verbatim>\<open>fetch\<close> does with a request within the timeout: it resolves, it rejects, or the
  timer aborts it first.
\<close>

datatype fetch_result = Resolves response | Rejects exn | Aborted

subsection \<open>State\<close>

record error_entry =
  message :: exn
  timestamp :: int
  origin :: string
  pair :: "(string \<times> string) option"

text \<open>What \<^verbatim>\<open>showError\<close> puts on the page: a text of the script or the message of an
  exception that the engine worded.\<close>

datatype shown = Text string | MessageOf exn

record state =
  exchangeRates :: "(string \<times> real) list"
  currencies :: "string list"
  conversionHistory :: "conversion list"
  conversionHistoryData :: "stored_text option"
  isLoading :: bool
  lastUpdateTime :: "int option"
  apiCallCount :: nat
  errors :: "error_entry list"
  errorMessage :: "shown option"
  resultVisible :: bool
  result :: "(jsnum \<times> real) option"
  historyList :: "conversion list"
  requests :: "string list"

text \<open>
  \<open>errorMessage\<close> is the message on display (\<open>None\<close> when hidden), \<open>result\<close> the
  converted amount and rate on display, \<open>historyList\<close> the records that the history
  list of the page shows. \<open>requests\<close> is not in the script: it lists the URL of every
  call of \<^verbatim>\<open>fetch\<close>, oldest first.
\<close>

definition initial :: state where
  "initial =
     \<lparr>exchangeRates = [], currencies = [], conversionHistory = [],
      conversionHistoryData = None, isLoading = False, lastUpdateTime = None,
      apiCallCount = 0, errors = [], errorMessage = None, resultVisible = False,
      result = None, historyList = [], requests = []\<rparr>"

subsection \<open>API functions\<close>

definition fetchWithTimeout ::
  "(string \<Rightarrow> fetch_result) \<Rightarrow> string \<Rightarrow> state \<Rightarrow> (exn + response) \<times> state" where
  "fetchWithTimeout fetch url s =
     (let s' = s\<lparr>requests := requests s @ [url]\<rparr> in
      case fetch url of
        Resolves r \<Rightarrow> (Inr r, s')
      | Aborted \<Rightarrow> (Inl (Error ''Request timeout - server tidak merespons''), s')
      | Rejects e \<Rightarrow> (Inl e, s'))"

definition hideError :: "state \<Rightarrow> state" where
  "hideError s = s\<lparr>errorMessage := None\<rparr>"

definition showResult :: "state \<Rightarrow> state" where
  "showResult s = s\<lparr>resultVisible := True\<rparr>"

definition hideResult :: "state \<Rightarrow> state" where
  "hideResult s = s\<lparr>resultVisible := False\<rparr>"

definition showError :: "shown \<Rightarrow> state \<Rightarrow> state" where
  "showError m s = hideResult (s\<lparr>errorMessage := Some m\<rparr>)"

definition showLoading :: "bool \<Rightarrow> state \<Rightarrow> state" where
  "showLoading show s =
     (if show then showResult (s\<lparr>isLoading := True, result := None\<rparr>)
      else s\<lparr>isLoading := False\<rparr>)"

text \<open>The \<^verbatim>\<open>try\<close> block of \<^verbatim>\<open>loadCurrencies\<close>, then the function with its \<^verbatim>\<open>catch\<close>.\<close>

definition loadCurrencies_try ::
  "(string \<Rightarrow> fetch_result) \<Rightarrow> int \<Rightarrow> state \<Rightarrow> (exn + unit) \<times> state" where
  "loadCurrencies_try fetch now s =
     (case fetchWithTimeout fetch (baseURL @ ''USD'') s of
        (Inl e, s1) \<Rightarrow> (Inl e, s1)
      | (Inr r, s1) \<Rightarrow>
          if \<not> ok r then (Inl (Error (''HTTP error! status: '' @ show_nat (status r))), s1)
          else
            (case body r of
               NotJson \<Rightarrow> (Inl SyntaxError, s1)
             | JsonNull \<Rightarrow> (Inl TypeError, s1)
             | JsonData RatesFalsy \<Rightarrow> (Inl (Error ''Invalid API response format''), s1)
             | JsonData RatesNonObject \<Rightarrow> (Inl (Error ''Invalid API response format''), s1)
             | JsonData (RatesObject rates) \<Rightarrow>
                 (let keys = sort (map fst rates);
                      has = (''USD'' \<in> set keys);
                      keys' = (if has then keys else ''USD'' # keys);
                      rates' = (if has then rates else rates @ [(''USD'', 1)]);
                      s2 = s1\<lparr>exchangeRates := rates',
                              currencies := filter (\<lambda>c. c \<in> fst ` set CURRENCY_INFO) keys',
                              lastUpdateTime := Some now,
                              apiCallCount := apiCallCount s1 + 1\<rparr>
                  in (Inr (), hideError s2))))"

definition loadCurrencies ::
  "(string \<Rightarrow> fetch_result) \<Rightarrow> int \<Rightarrow> state \<Rightarrow> (exn + unit) \<times> state" where
  "loadCurrencies fetch now s =
     (case loadCurrencies_try fetch now s of
        (Inr u, s1) \<Rightarrow> (Inr u, s1)
      | (Inl e, s1) \<Rightarrow>
          (Inl (Error ''Gagal memuat data mata uang dari server''),
           s1\<lparr>errors := errors s1 @
                 [\<lparr>message = e, timestamp = now, origin = ''loadCurrencies'', pair = None\<rparr>]\<rparr>))"

text \<open>\<^verbatim>\<open>exchangeRates[c]\<close> as a condition: the entry is there and is not zero.\<close>

definition truthy_rate :: "(string \<times> real) list \<Rightarrow> string \<Rightarrow> bool" where
  "truthy_rate rates c = (case map_of rates c of None \<Rightarrow> False | Some r \<Rightarrow> r \<noteq> 0)"

definition getExchangeRate_try ::
  "(string \<Rightarrow> fetch_result) \<Rightarrow> string \<Rightarrow> string \<Rightarrow> state \<Rightarrow> (exn + real) \<times> state" where
  "getExchangeRate_try fetch fromCurrency toCurrency s =
     (if fromCurrency = toCurrency then (Inr 1, s)
      else if truthy_rate (exchangeRates s) fromCurrency \<and> truthy_rate (exchangeRates s) toCurrency
      then (Inr (the (map_of (exchangeRates s) toCurrency) /
                 the (map_of (exchangeRates s) fromCurrency)), s)
      else
        (case fetchWithTimeout fetch (baseURL @ fromCurrency) s of
           (Inl e, s1) \<Rightarrow> (Inl e, s1)
         | (Inr r, s1) \<Rightarrow>
             if \<not> ok r then (Inl (Error (''HTTP error! status: '' @ show_nat (status r))), s1)
             else
               (case body r of
                  NotJson \<Rightarrow> (Inl SyntaxError, s1)
                | JsonNull \<Rightarrow> (Inl TypeError, s1)
                | JsonData (RatesObject rates) \<Rightarrow>
                    if truthy_rate rates toCurrency
                    then (Inr (the (map_of rates toCurrency)),
                          s1\<lparr>apiCallCount := apiCallCount s1 + 1\<rparr>)
                    else (Inl (Error (''Exchange rate not available for '' @ toCurrency)), s1)
                | JsonData _ \<Rightarrow>
                    (Inl (Error (''Exchange rate not available for '' @ toCurrency)), s1))))"

definition getExchangeRate ::
  "(string \<Rightarrow> fetch_result) \<Rightarrow> int \<Rightarrow> string \<Rightarrow> string \<Rightarrow> state \<Rightarrow> (exn + real) \<times> state" where
  "getExchangeRate fetch now fromCurrency toCurrency s =
     (case getExchangeRate_try fetch fromCurrency toCurrency s of
        (Inr rate, s1) \<Rightarrow> (Inr rate, s1)
      | (Inl e, s1) \<Rightarrow>
          (Inl (Error ''Gagal mendapatkan nilai tukar mata uang''),
           s1\<lparr>errors := errors s1 @
                 [\<lparr>message = e, timestamp = now, origin = ''getExchangeRate'',
                   pair = Some (fromCurrency, toCurrency)\<rparr>]\<rparr>))"

subsection \<open>Formatting and the history list\<close>

definition and_then :: "exn + 'a \<Rightarrow> ('a \<Rightarrow> exn + 'b) \<Rightarrow> exn + 'b" where
  "and_then r f = (case r of Inl e \<Rightarrow> Inl e | Inr x \<Rightarrow> f x)"

text \<open>
  Converting data to a primitive (as \<^verbatim>\<open>isNaN\<close>, a property key, a template and
  \<^verbatim>\<open>new Date\<close> do) throws a \<^verbatim>\<open>TypeError\<close> for an object with an own property
  \<^verbatim>\<open>toString\<close>: it hides \<^verbatim>\<open>Object.prototype.toString\<close>, no data is callable, and
  \<^verbatim>\<open>valueOf\<close> returns the object. An array joins the strings of its elements, \<^verbatim>\<open>null\<close>
  counting as the empty string.
\<close>

fun toPrimitive_throws :: "json \<Rightarrow> bool" where
  "toPrimitive_throws (JObj kvs) = (''toString'' \<in> fst ` set kvs)"
| "toPrimitive_throws (JArr xs) = (\<exists>x \<in> set xs. x \<noteq> JNull \<and> toPrimitive_throws x)"
| "toPrimitive_throws _ = False"

text \<open>A value that was read from a property: \<open>None\<close> is \<^verbatim>\<open>undefined\<close>.\<close>

definition coerce :: "json option \<Rightarrow> exn + unit" where
  "coerce v =
     (case v of
        None \<Rightarrow> Inr ()
      | Some x \<Rightarrow> if toPrimitive_throws x then Inl TypeError else Inr ())"

fun join_comma :: "string list \<Rightarrow> string" where
  "join_comma [] = []"
| "join_comma [x] = x"
| "join_comma (x # y # ys) = x @ '','' @ join_comma (y # ys)"

fun js_toString :: "lib \<Rightarrow> json \<Rightarrow> string" where
  "js_toString l JNull = ''null''"
| "js_toString l (JBool b) = (if b then ''true'' else ''false'')"
| "js_toString l (JNum n) = Number_toString l n"
| "js_toString l (JStr s) = s"
| "js_toString l (JArr xs) =
     join_comma (map (\<lambda>x. if x = JNull then [] else js_toString l x) xs)"
| "js_toString l (JObj kvs) = ''[object Object]''"

text \<open>
  \<^verbatim>\<open>obj.k\<close> where \<open>obj\<close> was read from a property of a record: it throws on
  \<^verbatim>\<open>undefined\<close> and \<^verbatim>\<open>null\<close>, and finds nothing on a number, a string, an array or a
  \<^verbatim>\<open>Date\<close> (for the keys \<^verbatim>\<open>amount\<close> and \<^verbatim>\<open>currency\<close>).
\<close>

definition read_prop :: "field option \<Rightarrow> string \<Rightarrow> exn + json option" where
  "read_prop obj k =
     (case obj of
        None \<Rightarrow> Inl TypeError
      | Some (Data JNull) \<Rightarrow> Inl TypeError
      | Some (Data (JObj kvs)) \<Rightarrow> Inr (map_of kvs k)
      | Some _ \<Rightarrow> Inr None)"

text \<open>
  \<^verbatim>\<open>formatNumber\<close> calls \<^verbatim>\<open>isNaN\<close> on its argument, and \<^verbatim>\<open>Intl.NumberFormat\<close> formats
  every number. \<^verbatim>\<open>formatDateTime\<close> returns the empty string for what is no \<^verbatim>\<open>Date\<close>;
  \<^verbatim>\<open>Intl.DateTimeFormat.prototype.format\<close> throws a \<^verbatim>\<open>RangeError\<close> for an invalid date.
\<close>

definition formatNumber :: "field option \<Rightarrow> exn + unit" where
  "formatNumber v = (case v of Some (Data x) \<Rightarrow> coerce (Some x) | _ \<Rightarrow> Inr ())"

definition formatDateTime :: "field option \<Rightarrow> exn + unit" where
  "formatDateTime date = (case date of Some (DateObj None) \<Rightarrow> Inl RangeError | _ \<Rightarrow> Inr ())"

text \<open>
  The callback of \<^verbatim>\<open>updateHistoryDisplay\<close>, by the steps that can throw, in the order
  of the code: the two lookups in \<^verbatim>\<open>CURRENCY_INFO\<close> (each reads \<^verbatim>\<open>currency\<close> and makes a
  key of it), \<^verbatim>\<open>formatCurrency\<close> on the source and on the target (\<^verbatim>\<open>isNaN(amount)\<close>; its
  uses of the currency convert again what was a key before), \<^verbatim>\<open>formatDateTime\<close>,
  \<^verbatim>\<open>formatNumber\<close>.
\<close>

definition render_item :: "conversion \<Rightarrow> exn + unit" where
  "render_item c =
     and_then (read_prop (map_of c ''from'') ''currency'') (\<lambda>fromCurrency.
     and_then (coerce fromCurrency) (\<lambda>_.
     and_then (read_prop (map_of c ''to'') ''currency'') (\<lambda>toCurrency.
     and_then (coerce toCurrency) (\<lambda>_.
     and_then (read_prop (map_of c ''from'') ''amount'') (\<lambda>fromAmount.
     and_then (coerce fromAmount) (\<lambda>_.
     and_then (read_prop (map_of c ''to'') ''amount'') (\<lambda>toAmount.
     and_then (coerce toAmount) (\<lambda>_.
     and_then (formatDateTime (map_of c ''timestamp'')) (\<lambda>_.
     formatNumber (map_of c ''rate''))))))))))"

fun render_items :: "conversion list \<Rightarrow> exn + unit" where
  "render_items [] = Inr ()"
| "render_items (c # cs) = and_then (render_item c) (\<lambda>_. render_items cs)"

definition updateHistoryDisplay :: "state \<Rightarrow> (exn + unit) \<times> state" where
  "updateHistoryDisplay s =
     (if conversionHistory s = [] then (Inr (), s\<lparr>historyList := []\<rparr>)
      else
        (case render_items (conversionHistory s) of
           Inl e \<Rightarrow> (Inl e, s)
         | Inr _ \<Rightarrow> (Inr (), s\<lparr>historyList := conversionHistory s\<rparr>)))"

subsection \<open>History\<close>

text \<open>
  \<^verbatim>\<open>JSON.stringify\<close>: a number that is not finite becomes \<^verbatim>\<open>null\<close>; a \<^verbatim>\<open>Date\<close> becomes
  what its \<^verbatim>\<open>toJSON\<close> returns, the ISO string or, for an invalid date, \<^verbatim>\<open>null\<close>.
\<close>

fun serialize_json :: "json \<Rightarrow> json" where
  "serialize_json (JNum n) = (case n of Fin r \<Rightarrow> JNum (Fin r) | _ \<Rightarrow> JNull)"
| "serialize_json (JArr xs) = JArr (map serialize_json xs)"
| "serialize_json (JObj kvs) = JObj (map (\<lambda>kv. (fst kv, serialize_json (snd kv))) kvs)"
| "serialize_json v = v"

definition serialize_field :: "lib \<Rightarrow> field \<Rightarrow> json" where
  "serialize_field l f =
     (case f of
        Data v \<Rightarrow> serialize_json v
      | DateObj None \<Rightarrow> JNull
      | DateObj (Some t) \<Rightarrow> JStr (toISOString l t))"

definition JSON_stringify :: "lib \<Rightarrow> conversion list \<Rightarrow> stored_text" where
  "JSON_stringify l h =
     JsonText (JArr (map (\<lambda>c. JObj (map (\<lambda>kv. (fst kv, serialize_field l (snd kv))) c)) h))"

definition saveHistoryToStorage :: "lib \<Rightarrow> state \<Rightarrow> state" where
  "saveHistoryToStorage l s =
     s\<lparr>conversionHistoryData := Some (JSON_stringify l (conversionHistory s))\<rparr>"

text \<open>
  The \<^verbatim>\<open>console.log\<close> that ends \<^verbatim>\<open>addToHistory\<close> reads \<^verbatim>\<open>from.amount\<close>,
  \<^verbatim>\<open>from.currency\<close>, \<^verbatim>\<open>to.amount.toFixed(4)\<close> and \<^verbatim>\<open>to.currency\<close>; \<^verbatim>\<open>toFixed\<close> is
  a method of numbers only.
\<close>

definition log_added :: "conversion \<Rightarrow> exn + unit" where
  "log_added c =
     and_then (read_prop (map_of c ''from'') ''amount'') (\<lambda>fromAmount.
     and_then (coerce fromAmount) (\<lambda>_.
     and_then (read_prop (map_of c ''from'') ''currency'') (\<lambda>fromCurrency.
     and_then (coerce fromCurrency) (\<lambda>_.
     and_then (read_prop (map_of c ''to'') ''amount'') (\<lambda>toAmount.
     and_then (case toAmount of Some (JNum n) \<Rightarrow> Inr () | _ \<Rightarrow> Inl TypeError) (\<lambda>_.
     and_then (read_prop (map_of c ''to'') ''currency'') coerce))))))"

definition addToHistory :: "lib \<Rightarrow> conversion \<Rightarrow> state \<Rightarrow> (exn + unit) \<times> state" where
  "addToHistory l c s =
     (let h = c # conversionHistory s;
          s1 = s\<lparr>conversionHistory := (if length h > 50 then take 50 h else h)\<rparr>;
          s2 = saveHistoryToStorage l s1
      in case updateHistoryDisplay s2 of
           (Inl e, s3) \<Rightarrow> (Inl e, s3)
         | (Inr _, s3) \<Rightarrow> (log_added c, s3))"

text \<open>
  \<^verbatim>\<open>new Date(v)\<close> for data: \<^verbatim>\<open>undefined\<close> gives an invalid date, \<^verbatim>\<open>null\<close> and a
  boolean count as numbers, a number is clipped (at most 8.64e15 in absolute value,
  fraction dropped), a string is parsed, an array or object is converted to a string
  first.
\<close>

definition TimeClip :: "jsnum \<Rightarrow> int option" where
  "TimeClip n =
     (case n of
        Fin r \<Rightarrow>
          if 8640000000000000 < \<bar>r\<bar> then None
          else Some (if 0 \<le> r then \<lfloor>r\<rfloor> else \<lceil>r\<rceil>)
      | _ \<Rightarrow> None)"

definition Date_new :: "lib \<Rightarrow> json option \<Rightarrow> exn + int option" where
  "Date_new l v =
     (case v of
        None \<Rightarrow> Inr None
      | Some JNull \<Rightarrow> Inr (Some 0)
      | Some (JBool b) \<Rightarrow> Inr (Some (if b then 1 else 0))
      | Some (JNum n) \<Rightarrow> Inr (TimeClip n)
      | Some (JStr s) \<Rightarrow> Inr (Date_parse l s)
      | Some x \<Rightarrow>
          if toPrimitive_throws x then Inl TypeError
          else Inr (Date_parse l (js_toString l x)))"

text \<open>
  The callback of \<^verbatim>\<open>loadHistoryFromStorage\<close>:
  \<^verbatim>\<open>{...item, timestamp: new Date(item.timestamp)}\<close>. Spreading an object copies its
  properties, spreading a string or an array gives its elements under their indices,
  spreading anything else gives nothing; \<^verbatim>\<open>item.timestamp\<close> throws for \<^verbatim>\<open>null\<close>.
\<close>

definition spread :: "json \<Rightarrow> conversion" where
  "spread item =
     (case item of
        JObj kvs \<Rightarrow> map (\<lambda>kv. (fst kv, Data (snd kv))) kvs
      | JStr s \<Rightarrow> zip (map show_nat [0..<length s]) (map (\<lambda>c. Data (JStr [c])) s)
      | JArr xs \<Rightarrow> zip (map show_nat [0..<length xs]) (map Data xs)
      | _ \<Rightarrow> [])"

definition revive :: "lib \<Rightarrow> json \<Rightarrow> exn + conversion" where
  "revive l item =
     (case item of
        JNull \<Rightarrow> Inl TypeError
      | _ \<Rightarrow>
          and_then
            (Date_new l (case item of JObj kvs \<Rightarrow> map_of kvs ''timestamp'' | _ \<Rightarrow> None))
            (\<lambda>d. Inr (AList.update ''timestamp'' (DateObj d) (spread item))))"

fun revive_all :: "lib \<Rightarrow> json list \<Rightarrow> exn + conversion list" where
  "revive_all l [] = Inr []"
| "revive_all l (item # items) =
     and_then (revive l item) (\<lambda>c.
     and_then (revive_all l items) (\<lambda>cs. Inr (c # cs)))"

text \<open>
  The \<^verbatim>\<open>try\<close> block of \<^verbatim>\<open>loadHistoryFromStorage\<close>. Only an array has a method
  \<^verbatim>\<open>map\<close>: on every other value of \<^verbatim>\<open>JSON.parse\<close> the call throws a \<^verbatim>\<open>TypeError\<close>.
  The history is assigned once the whole array is mapped.
\<close>

definition loadHistoryFromStorage_try :: "lib \<Rightarrow> state \<Rightarrow> (exn + unit) \<times> state" where
  "loadHistoryFromStorage_try l s =
     (case conversionHistoryData s of
        None \<Rightarrow> updateHistoryDisplay s
      | Some EmptyText \<Rightarrow> updateHistoryDisplay s
      | Some savedHistory \<Rightarrow>
          (case JSON_parse savedHistory of
             Inl e \<Rightarrow> (Inl e, s)
           | Inr (JArr items) \<Rightarrow>
               (case revive_all l items of
                  Inl e \<Rightarrow> (Inl e, s)
                | Inr h \<Rightarrow> updateHistoryDisplay (s\<lparr>conversionHistory := h\<rparr>))
           | Inr _ \<Rightarrow> (Inl TypeError, s)))"

definition loadHistoryFromStorage :: "lib \<Rightarrow> state \<Rightarrow> (exn + unit) \<times> state" where
  "loadHistoryFromStorage l s =
     (case loadHistoryFromStorage_try l s of
        (Inr u, s1) \<Rightarrow> (Inr u, s1)
      | (Inl e, s1) \<Rightarrow> (Inr (), s1\<lparr>conversionHistory := []\<rparr>))"

subsection \<open>Conversion\<close>

text \<open>The record that \<^verbatim>\<open>performConversion\<close> hands to \<^verbatim>\<open>addToHistory\<close>.\<close>

definition conversion_record ::
  "jsnum \<Rightarrow> string \<Rightarrow> jsnum \<Rightarrow> string \<Rightarrow> real \<Rightarrow> int \<Rightarrow> conversion" where
  "conversion_record fromAmount fromCurrency convertedAmount toCurrency rate now =
     [(''from'', Data (JObj [(''amount'', JNum fromAmount), (''currency'', JStr fromCurrency)])),
      (''to'', Data (JObj [(''amount'', JNum convertedAmount), (''currency'', JStr toCurrency)])),
      (''rate'', Data (JNum (Fin rate))),
      (''timestamp'', DateObj (Some now))]"

text \<open>\<^verbatim>\<open>error.message || "Gagal melakukan konversi mata uang"\<close>.\<close>

definition message_or_default :: "exn \<Rightarrow> shown" where
  "message_or_default e =
     (case e of
        Error m \<Rightarrow> if m = [] then Text ''Gagal melakukan konversi mata uang'' else Text m
      | _ \<Rightarrow> MessageOf e)"

definition performConversion_try ::
  "lib \<Rightarrow> (string \<Rightarrow> fetch_result) \<Rightarrow> int \<Rightarrow> jsnum \<Rightarrow> string \<Rightarrow> string \<Rightarrow> state
     \<Rightarrow> (exn + unit) \<times> state" where
  "performConversion_try l fetch now fromAmount fromCurrency toCurrency s =
     (case getExchangeRate fetch now fromCurrency toCurrency (hideError (showLoading True s)) of
        (Inl e, s1) \<Rightarrow> (Inl e, s1)
      | (Inr rate, s1) \<Rightarrow>
          (let convertedAmount = js_times fromAmount rate;
               s2 = showResult (s1\<lparr>result := Some (convertedAmount, rate)\<rparr>)
           in case addToHistory l
                     (conversion_record fromAmount fromCurrency convertedAmount toCurrency rate now)
                     s2 of
                (Inl e, s3) \<Rightarrow> (Inl e, s3)
              | (Inr _, s3) \<Rightarrow> (Inr (), showLoading False s3)))"

text \<open>
  \<^verbatim>\<open>performConversion\<close>, on the amount that \<^verbatim>\<open>parseFloat\<close> read from the form and the
  two selected codes.
\<close>

definition performConversion ::
  "lib \<Rightarrow> (string \<Rightarrow> fetch_result) \<Rightarrow> int \<Rightarrow> jsnum \<Rightarrow> string \<Rightarrow> string \<Rightarrow> state \<Rightarrow> state" where
  "performConversion l fetch now fromAmount fromCurrency toCurrency s =
     (if js_not fromAmount \<or> fromCurrency = [] \<or> toCurrency = [] then hideResult s
      else if js_le_zero fromAmount then showError (Text ''Jumlah harus lebih besar dari 0'') s
      else if js_gt fromAmount 1000000000
      then showError (Text ''Jumlah terlalu besar. Maksimal 1 miliar'') s
      else
        (case performConversion_try l fetch now fromAmount fromCurrency toCurrency s of
           (Inr _, s1) \<Rightarrow> s1
         | (Inl e, s1) \<Rightarrow> showLoading False (showError (message_or_default e) s1)))"

subsection \<open>Sequences of calls and inputs for evaluation\<close>

text \<open>\<^verbatim>\<open>addToHistory\<close> called on each record of a list in turn, first record first.\<close>

fun add_all :: "lib \<Rightarrow> conversion list \<Rightarrow> state \<Rightarrow> state" where
  "add_all l [] s = s"
| "add_all l (c # cs) s = add_all l cs (snd (addToHistory l c s))"

text \<open>
  Two values of \<^verbatim>\<open>Date.parse\<close> and of \<^verbatim>\<open>toISOString\<close>, to evaluate examples with; every
  other string is taken for no date, which is right for the strings of the examples.
\<close>

definition example_lib :: lib where
  "example_lib =
     \<lparr>Date_parse = (\<lambda>s. if s = ''2024-01-01T00:00:00.000Z'' then Some 1704067200000
                        else if s = ''2024-01-02T00:00:00.000Z'' then Some 1704153600000
                        else None),
      toISOString = (\<lambda>t. if t = 1704067200000 then ''2024-01-01T00:00:00.000Z''
                         else if t = 1704153600000 then ''2024-01-02T00:00:00.000Z''
                         else []),
      Number_toString = (\<lambda>n. [])\<rparr>"

text \<open>Sixty records of one dollar converted to rupiah, a millisecond apart.\<close>

definition sixty :: "conversion list" where
  "sixty =
     map (\<lambda>n. conversion_record (Fin 1) ''USD'' (Fin 15000) ''IDR'' 15000 (int n)) [0..<60]"

text \<open>A state with a cached table of two rates, and a network that rejects every request.\<close>

definition cached :: state where
  "cached = initial\<lparr>exchangeRates := [(''USD'', 1), (''IDR'', 15000)]\<rparr>"

definition offline :: "string \<Rightarrow> fetch_result" where
  "offline url = Rejects TypeError"

text \<open>
  Two providers: one answers every request with a table that holds the dollar only, the
  other with a table that gives 2 for the dollar and 1 for the euro.
\<close>

definition usd_only :: "string \<Rightarrow> fetch_result" where
  "usd_only url = Resolves \<lparr>ok = True, status = 200, body = JsonData (RatesObject [(''USD'', 1)])\<rparr>"

definition usd_two :: "string \<Rightarrow> fetch_result" where
  "usd_two url =
     Resolves \<lparr>ok = True, status = 200, body = JsonData (RatesObject [(''USD'', 2), (''EUR'', 1)])\<rparr>"

text \<open>
  A record of the history is well formed when \<^verbatim>\<open>performConversion\<close> can have made it
  (finite amounts, two codes, a rate, a valid date) and the ISO string of its date parses
  back to the date, as the language requires of \<^verbatim>\<open>Date.parse\<close>.
\<close>

definition well_formed :: "lib \<Rightarrow> conversion \<Rightarrow> bool" where
  "well_formed l c \<longleftrightarrow>
     (\<exists>a1 c1 a2 c2 r t. c = conversion_record (Fin a1) c1 (Fin a2) c2 r t \<and>
        Date_parse l (toISOString l t) = Some t)"

text \<open>Two records, a day apart, newest first.\<close>

definition two_records :: "conversion list" where
  "two_records =
     [conversion_record (Fin 1) ''USD'' (Fin 15000) ''IDR'' 15000 1704153600000,
      conversion_record (Fin 15000) ''IDR'' (Fin 1) ''USD'' (1 / 15000) 1704067200000]"

text \<open>
  Stored texts: an array whose one item has \<^verbatim>\<open>from\<close>, \<^verbatim>\<open>to\<close> and a timestamp and
  nothing of a conversion; the JSON of a record with a given timestamp string; an array
  of two records, the first with a timestamp that is no date.
\<close>

definition misshapen :: stored_text where
  "misshapen =
     JsonText (JArr [JObj [(''from'', JObj []), (''to'', JObj []), (''timestamp'', JNum (Fin 0))]])"

text \<open>
  An item with \<^verbatim>\<open>from\<close>, \<^verbatim>\<open>to\<close> and a timestamp whose currency is an object that does
  not convert to a property key: \<^verbatim>\<open>{"from":{"currency":{"toString":null}},"to":{},"timestamp":0}\<close>.
\<close>

definition unconvertible :: json where
  "unconvertible =
     JObj [(''from'', JObj [(''currency'', JObj [(''toString'', JNull)])]), (''to'', JObj []),
           (''timestamp'', JNum (Fin 0))]"

definition record_json :: "string \<Rightarrow> json" where
  "record_json ts =
     JObj [(''from'', JObj [(''amount'', JNum (Fin 1)), (''currency'', JStr ''USD'')]),
           (''to'', JObj [(''amount'', JNum (Fin 15000)), (''currency'', JStr ''IDR'')]),
           (''rate'', JNum (Fin 15000)),
           (''timestamp'', JStr ts)]"

definition one_bad_timestamp :: stored_text where
  "one_bad_timestamp =
     JsonText (JArr [record_json ''not a date'', record_json ''2024-01-01T00:00:00.000Z''])"

section \<open>Properties\<close>

subsection \<open>The history is capped and newest first\<close>

lemma updateHistoryDisplay_history:
  "conversionHistory (snd (updateHistoryDisplay s)) = conversionHistory s"
  by (simp add: updateHistoryDisplay_def split: sum.splits)

lemma addToHistory_history:
  "conversionHistory (snd (addToHistory l c s)) = take 50 (c # conversionHistory s)"
proof -
  have "conversionHistory (snd (addToHistory l c s)) =
        conversionHistory (snd (updateHistoryDisplay (saveHistoryToStorage l
          (s\<lparr>conversionHistory := (if length (c # conversionHistory s) > 50
               then take 50 (c # conversionHistory s) else c # conversionHistory s)\<rparr>))))"
    by (simp add: addToHistory_def Let_def split: prod.splits sum.splits)
  then show ?thesis
    by (simp add: updateHistoryDisplay_history saveHistoryToStorage_def)
qed

lemma take_append_take: "take n (xs @ take n ys) = take n (xs @ ys)"
  by (simp add: min_def)

lemma add_all_history:
  "conversionHistory (add_all l cs s) =
     (if cs = [] then conversionHistory s else take 50 (rev cs @ conversionHistory s))"
proof (induction cs arbitrary: s)
  case Nil
  then show ?case by simp
next
  case (Cons c cs)
  show ?case
  proof (cases "cs = []")
    case True
    then show ?thesis by (simp add: addToHistory_history)
  next
    case False
    have "take 50 (rev cs @ take 50 (c # conversionHistory s)) =
          take 50 (rev cs @ c # conversionHistory s)"
      by (rule take_append_take)
    with False show ?thesis
      by (simp add: Cons.IH addToHistory_history del: take_Cons_numeral)
  qed
qed

text \<open>
  C4. Whatever the history holds and whatever records are added, in order, by
  \<^verbatim>\<open>addToHistory\<close>: if the history had at most 50 records, or at least one record is
  added, the history then has at most 50 records and is the first 50 of the added records,
  last added first, followed by the old ones. Adding 60 records to the empty history
  leaves the last 50 of them, newest first; when the 60 are distinct, none of the first
  ten is left.
\<close>

theorem history_capacity:
  "(length (conversionHistory s) \<le> 50 \<or> cs \<noteq> [] \<longrightarrow>
      length (conversionHistory (add_all l cs s)) \<le> 50 \<and>
      conversionHistory (add_all l cs s) = take 50 (rev cs @ conversionHistory s)) \<and>
   (conversionHistory s = [] \<and> length cs = 60 \<longrightarrow>
      conversionHistory (add_all l cs s) = rev (drop 10 cs) \<and>
      length (conversionHistory (add_all l cs s)) = 50 \<and>
      (distinct cs \<longrightarrow> set (take 10 cs) \<inter> set (conversionHistory (add_all l cs s)) = {}))"
proof (intro conjI impI)
  assume a: "length (conversionHistory s) \<le> 50 \<or> cs \<noteq> []"
  show e: "conversionHistory (add_all l cs s) = take 50 (rev cs @ conversionHistory s)"
    using a by (auto simp: add_all_history)
  show "length (conversionHistory (add_all l cs s)) \<le> 50"
    unfolding e by simp
next
  assume a: "conversionHistory s = [] \<and> length cs = 60"
  then have ne: "cs \<noteq> []" by auto
  have "take 50 (rev cs) = rev (drop 10 cs)"
    using a by (simp add: take_rev)
  then show e: "conversionHistory (add_all l cs s) = rev (drop 10 cs)"
    using a ne by (simp add: add_all_history)
  show "length (conversionHistory (add_all l cs s)) = 50"
    unfolding e using a by simp
  show "set (take 10 cs) \<inter> set (conversionHistory (add_all l cs s)) = {}" if "distinct cs"
  proof -
    have "distinct (take 10 cs @ drop 10 cs)" using that by simp
    then show ?thesis unfolding e by (simp only: distinct_append set_rev)
  qed
qed

theorem history_capacity_witness:
  "length (conversionHistory initial) \<le> 50 \<and>
   conversionHistory initial = [] \<and> length sixty = 60 \<and> distinct sixty \<and>
   length (conversionHistory (add_all example_lib sixty initial)) \<le> 50 \<and>
   conversionHistory (add_all example_lib sixty initial) =
     take 50 (rev sixty @ conversionHistory initial) \<and>
   conversionHistory (add_all example_lib sixty initial) = rev (drop 10 sixty) \<and>
   length (conversionHistory (add_all example_lib sixty initial)) = 50 \<and>
   set (take 10 sixty) \<inter> set (conversionHistory (add_all example_lib sixty initial)) = {}"
proof -
  have h: "conversionHistory initial = []" by (simp add: initial_def)
  have n: "length sixty = 60" and d: "distinct sixty"
    by (simp_all add: sixty_def distinct_map inj_on_def conversion_record_def)
  have l: "length (conversionHistory initial) \<le> 50" by (simp add: h)
  from history_capacity [of initial sixty example_lib] h n d l
  have "length (conversionHistory (add_all example_lib sixty initial)) \<le> 50 \<and>
        conversionHistory (add_all example_lib sixty initial) =
          take 50 (rev sixty @ conversionHistory initial) \<and>
        conversionHistory (add_all example_lib sixty initial) = rev (drop 10 sixty) \<and>
        length (conversionHistory (add_all example_lib sixty initial)) = 50 \<and>
        set (take 10 sixty) \<inter> set (conversionHistory (add_all example_lib sixty initial)) = {}"
    by blast
  with h n d l show ?thesis by blast
qed

subsection \<open>Converting\<close>

lemma render_items_iff: "render_items h = Inr () \<longleftrightarrow> (\<forall>c \<in> set h. render_item c = Inr ())"
  by (induction h) (auto simp: and_then_def split: sum.splits)

lemma render_item_record [simp]:
  "render_item (conversion_record x f y t r n) = Inr ()"
  by (simp add: render_item_def conversion_record_def and_then_def read_prop_def coerce_def
      formatDateTime_def formatNumber_def)

lemma log_added_record [simp]:
  "log_added (conversion_record x f y t r n) = Inr ()"
  by (simp add: log_added_def conversion_record_def and_then_def read_prop_def coerce_def)

lemma render_items_take:
  "render_items h = Inr () \<Longrightarrow> render_item c = Inr () \<Longrightarrow> render_items (take n (c # h)) = Inr ()"
  unfolding render_items_iff by (metis in_set_takeD set_ConsD)

lemma addToHistory_record:
  assumes "render_items (conversionHistory s) = Inr ()"
  shows "addToHistory l (conversion_record x f y t r n) s =
           (Inr (),
            s\<lparr>conversionHistory := take 50 (conversion_record x f y t r n # conversionHistory s),
              conversionHistoryData :=
                Some (JSON_stringify l
                  (take 50 (conversion_record x f y t r n # conversionHistory s))),
              historyList := take 50 (conversion_record x f y t r n # conversionHistory s)\<rparr>)"
proof -
  let ?c = "conversion_record x f y t r n"
  have r: "render_items (take 50 (?c # conversionHistory s)) = Inr ()"
    using assms by (rule render_items_take) simp
  have t: "(if 50 < length (?c # conversionHistory s) then take 50 (?c # conversionHistory s)
            else ?c # conversionHistory s) = take 50 (?c # conversionHistory s)"
    by simp
  have ne: "take 50 (?c # conversionHistory s) \<noteq> []" by simp
  show ?thesis
    unfolding addToHistory_def Let_def t
    using r ne by (simp add: updateHistoryDisplay_def saveHistoryToStorage_def del: take_Cons_numeral)
qed

lemma getExchangeRate_same: "getExchangeRate fetch now X X s = (Inr 1, s)"
  by (simp add: getExchangeRate_def getExchangeRate_try_def)

lemma getExchangeRate_cached:
  assumes "X \<noteq> Y" "map_of (exchangeRates s) X = Some rx" "map_of (exchangeRates s) Y = Some ry"
    "rx \<noteq> 0" "ry \<noteq> 0"
  shows "getExchangeRate fetch now X Y s = (Inr (ry / rx), s)"
  using assms by (simp add: getExchangeRate_def getExchangeRate_try_def truthy_rate_def)

lemma valid_amount:
  "0 < a \<Longrightarrow> a \<le> 1000000000 \<Longrightarrow>
     \<not> js_not (Fin a) \<and> \<not> js_le_zero (Fin a) \<and> \<not> js_gt (Fin a) 1000000000"
  by (simp add: js_not_def js_le_zero_def js_gt_def)

lemma performConversion_converts:
  assumes a: "0 < a" "a \<le> 1000000000" and c: "X \<noteq> []" "Y \<noteq> []"
    and g: "getExchangeRate fetch now X Y (hideError (showLoading True s)) = (Inr rate, s1)"
    and h: "render_items (conversionHistory s1) = Inr ()"
  shows "performConversion l fetch now (Fin a) X Y s =
           s1\<lparr>result := Some (Fin (a * rate), rate), resultVisible := True, isLoading := False,
              conversionHistory :=
                take 50 (conversion_record (Fin a) X (Fin (a * rate)) Y rate now # conversionHistory s1),
              conversionHistoryData :=
                Some (JSON_stringify l
                  (take 50 (conversion_record (Fin a) X (Fin (a * rate)) Y rate now # conversionHistory s1))),
              historyList :=
                take 50 (conversion_record (Fin a) X (Fin (a * rate)) Y rate now # conversionHistory s1)\<rparr>"
proof -
  let ?s2 = "showResult (s1\<lparr>result := Some (Fin (a * rate), rate)\<rparr>)"
  have h2: "render_items (conversionHistory ?s2) = Inr ()"
    using h by (simp add: showResult_def)
  have t: "performConversion_try l fetch now (Fin a) X Y s =
           (case addToHistory l (conversion_record (Fin a) X (Fin (a * rate)) Y rate now) ?s2 of
              (Inl e, s3) \<Rightarrow> (Inl e, s3)
            | (Inr _, s3) \<Rightarrow> (Inr (), showLoading False s3))"
    by (simp add: performConversion_try_def g js_times_def Let_def)
  have "performConversion l fetch now (Fin a) X Y s =
        (case performConversion_try l fetch now (Fin a) X Y s of
           (Inr _, s1) \<Rightarrow> s1
         | (Inl e, s1) \<Rightarrow> showLoading False (showError (message_or_default e) s1))"
    using valid_amount [OF a] c by (simp add: performConversion_def)
  also have "\<dots> = showLoading False
      (?s2\<lparr>conversionHistory :=
              take 50 (conversion_record (Fin a) X (Fin (a * rate)) Y rate now # conversionHistory ?s2),
            conversionHistoryData :=
              Some (JSON_stringify l
                (take 50 (conversion_record (Fin a) X (Fin (a * rate)) Y rate now # conversionHistory ?s2))),
            historyList :=
              take 50 (conversion_record (Fin a) X (Fin (a * rate)) Y rate now # conversionHistory ?s2)\<rparr>)"
    unfolding t addToHistory_record [OF h2] by simp
  also have "\<dots> = s1\<lparr>result := Some (Fin (a * rate), rate), resultVisible := True, isLoading := False,
              conversionHistory :=
                take 50 (conversion_record (Fin a) X (Fin (a * rate)) Y rate now # conversionHistory s1),
              conversionHistoryData :=
                Some (JSON_stringify l
                  (take 50 (conversion_record (Fin a) X (Fin (a * rate)) Y rate now # conversionHistory s1))),
              historyList :=
                take 50 (conversion_record (Fin a) X (Fin (a * rate)) Y rate now # conversionHistory s1)\<rparr>"
    by (simp add: showLoading_def showResult_def del: take_Cons_numeral)
  finally show ?thesis .
qed

lemma addToHistory_state:
  "\<exists>hl. snd (addToHistory l c s) =
     s\<lparr>conversionHistory := take 50 (c # conversionHistory s),
       conversionHistoryData := Some (JSON_stringify l (take 50 (c # conversionHistory s))),
       historyList := hl\<rparr>"
proof -
  have t: "(if 50 < length (c # conversionHistory s) then take 50 (c # conversionHistory s)
            else c # conversionHistory s) = take 50 (c # conversionHistory s)"
    by simp
  have ne: "take 50 (c # conversionHistory s) \<noteq> []" by simp
  show ?thesis
  proof (cases "render_items (take 50 (c # conversionHistory s))")
    case (Inl e)
    then have "snd (addToHistory l c s) =
       s\<lparr>conversionHistory := take 50 (c # conversionHistory s),
         conversionHistoryData := Some (JSON_stringify l (take 50 (c # conversionHistory s))),
         historyList := historyList s\<rparr>"
      unfolding addToHistory_def Let_def t using ne
      by (simp add: updateHistoryDisplay_def saveHistoryToStorage_def del: take_Cons_numeral)
    then show ?thesis by blast
  next
    case (Inr u)
    then have "snd (addToHistory l c s) =
       s\<lparr>conversionHistory := take 50 (c # conversionHistory s),
         conversionHistoryData := Some (JSON_stringify l (take 50 (c # conversionHistory s))),
         historyList := take 50 (c # conversionHistory s)\<rparr>"
      unfolding addToHistory_def Let_def t using ne
      by (simp add: updateHistoryDisplay_def saveHistoryToStorage_def del: take_Cons_numeral)
    then show ?thesis by blast
  qed
qed

lemma performConversion_result:
  assumes a: "0 < a" "a \<le> 1000000000" and c: "X \<noteq> []" "Y \<noteq> []"
    and g: "getExchangeRate fetch now X Y (hideError (showLoading True s)) = (Inr rate, s1)"
  shows "result (performConversion l fetch now (Fin a) X Y s) = Some (Fin (a * rate), rate)"
    and "requests (performConversion l fetch now (Fin a) X Y s) = requests s1"
    and "exchangeRates (performConversion l fetch now (Fin a) X Y s) = exchangeRates s1"
    and "apiCallCount (performConversion l fetch now (Fin a) X Y s) = apiCallCount s1"
    and "conversionHistory (performConversion l fetch now (Fin a) X Y s) =
           take 50 (conversion_record (Fin a) X (Fin (a * rate)) Y rate now # conversionHistory s1)"
proof -
  let ?c = "conversion_record (Fin a) X (Fin (a * rate)) Y rate now"
  let ?s2 = "showResult (s1\<lparr>result := Some (Fin (a * rate), rate)\<rparr>)"
  obtain hl where st: "snd (addToHistory l ?c ?s2) =
     ?s2\<lparr>conversionHistory := take 50 (?c # conversionHistory ?s2),
       conversionHistoryData := Some (JSON_stringify l (take 50 (?c # conversionHistory ?s2))),
       historyList := hl\<rparr>"
    using addToHistory_state by blast
  obtain r s3 where ad: "addToHistory l ?c ?s2 = (r, s3)" by (cases "addToHistory l ?c ?s2")
  have s3: "s3 = ?s2\<lparr>conversionHistory := take 50 (?c # conversionHistory ?s2),
       conversionHistoryData := Some (JSON_stringify l (take 50 (?c # conversionHistory ?s2))),
       historyList := hl\<rparr>"
    using st ad by simp
  have p: "performConversion l fetch now (Fin a) X Y s =
        (case r of Inr _ \<Rightarrow> showLoading False s3
         | Inl e \<Rightarrow> showLoading False (showError (message_or_default e) s3))"
    using valid_amount [OF a] c
    by (simp add: performConversion_def performConversion_try_def g js_times_def Let_def ad
        split: sum.splits)
  show "result (performConversion l fetch now (Fin a) X Y s) = Some (Fin (a * rate), rate)"
    and "requests (performConversion l fetch now (Fin a) X Y s) = requests s1"
    and "exchangeRates (performConversion l fetch now (Fin a) X Y s) = exchangeRates s1"
    and "apiCallCount (performConversion l fetch now (Fin a) X Y s) = apiCallCount s1"
    and "conversionHistory (performConversion l fetch now (Fin a) X Y s) =
           take 50 (?c # conversionHistory s1)"
    unfolding p s3
    by (simp_all add: showLoading_def showError_def showResult_def hideResult_def
        split: sum.splits del: take_Cons_numeral)
qed

lemma getExchangeRate_frame:
  "exchangeRates (snd (getExchangeRate fetch now X Y s)) = exchangeRates s \<and>
   conversionHistory (snd (getExchangeRate fetch now X Y s)) = conversionHistory s \<and>
   errorMessage (snd (getExchangeRate fetch now X Y s)) = errorMessage s"
  by (simp add: getExchangeRate_def getExchangeRate_try_def fetchWithTimeout_def Let_def
      split: fetch_result.splits body.splits rates_field.splits)

lemma getExchangeRate_error:
  "getExchangeRate fetch now X Y s = (Inl e, s1) \<Longrightarrow> e = Error ''Gagal mendapatkan nilai tukar mata uang''"
  by (auto simp: getExchangeRate_def split: prod.splits sum.splits)

text \<open>
  The history renders in every state that the script reaches: it is empty at the start,
  and a load and a conversion leave a history that renders.
\<close>

lemma loadHistoryFromStorage_renders:
  "render_items (conversionHistory (snd (loadHistoryFromStorage l s))) = Inr ()"
proof (cases "loadHistoryFromStorage_try l s")
  case (Pair r s1)
  show ?thesis
  proof (cases r)
    case (Inl e)
    with Pair show ?thesis by (simp add: loadHistoryFromStorage_def)
  next
    case (Inr u)
    have u: "render_items (conversionHistory s') = Inr ()"
      if "updateHistoryDisplay s0 = (Inr (), s')" for s0 s'
      using that
      by (cases "conversionHistory s0 = []")
        (auto simp: updateHistoryDisplay_def split: sum.splits)
    from Pair Inr have "render_items (conversionHistory s1) = Inr ()"
      by (auto simp: loadHistoryFromStorage_try_def split: option.splits stored_text.splits
          sum.splits json.splits dest: u)
    with Pair Inr show ?thesis by (simp add: loadHistoryFromStorage_def)
  qed
qed

lemma performConversion_renders:
  assumes "render_items (conversionHistory s) = Inr ()"
  shows "render_items (conversionHistory (performConversion l fetch now x X Y s)) = Inr ()"
proof -
  let ?s0 = "hideError (showLoading True s)"
  have h0: "conversionHistory ?s0 = conversionHistory s"
    by (simp add: hideError_def showLoading_def showResult_def)
  obtain r s1 where g: "getExchangeRate fetch now X Y ?s0 = (r, s1)"
    by (cases "getExchangeRate fetch now X Y ?s0")
  have h1: "conversionHistory s1 = conversionHistory s"
    using getExchangeRate_frame [of fetch now X Y ?s0] g h0 by simp
  have t: "render_items (conversionHistory (snd (performConversion_try l fetch now x X Y s))) = Inr ()"
  proof (cases r)
    case (Inl e)
    with g h1 assms show ?thesis by (simp add: performConversion_try_def)
  next
    case (Inr rate)
    let ?c = "conversion_record x X (js_times x rate) Y rate now"
    let ?s2 = "showResult (s1\<lparr>result := Some (js_times x rate, rate)\<rparr>)"
    have "conversionHistory (snd (performConversion_try l fetch now x X Y s)) =
          conversionHistory (snd (addToHistory l ?c ?s2))"
      using g Inr
      by (simp add: performConversion_try_def Let_def showLoading_def split: prod.splits sum.splits)
    also have "\<dots> = take 50 (?c # conversionHistory s)"
      by (simp add: addToHistory_history h1 showResult_def del: take_Cons_numeral)
    finally show ?thesis
      using render_items_take [OF assms, of ?c 50] by simp
  qed
  show ?thesis
  proof (cases "performConversion_try l fetch now x X Y s")
    case (Pair r' s')
    with t have "render_items (conversionHistory s') = Inr ()" by simp
    with Pair assms show ?thesis
      by (simp add: performConversion_def hideResult_def showError_def showLoading_def
          split: sum.splits)
  qed
qed

text \<open>
  C2. For a valid amount \<open>a\<close> (positive, at most 1,000,000,000) and a code \<open>X\<close>,
  converting from \<open>X\<close> to \<open>X\<close> uses the rate 1 exactly, shows the amount \<open>a\<close>
  itself and calls \<^verbatim>\<open>fetch\<close> not once. When the history on the page renders, the
  conversion ends without an error message, the result on display, and the record at the
  head of the history.
\<close>

theorem same_currency_identity:
  assumes "0 < a" and "a \<le> 1000000000" and "X \<noteq> []"
  shows "getExchangeRate fetch now X X s = (Inr 1, s) \<and>
         result (performConversion l fetch now (Fin a) X X s) = Some (Fin a, 1) \<and>
         requests (performConversion l fetch now (Fin a) X X s) = requests s \<and>
         (render_items (conversionHistory s) = Inr () \<longrightarrow>
            errorMessage (performConversion l fetch now (Fin a) X X s) = None \<and>
            resultVisible (performConversion l fetch now (Fin a) X X s) \<and>
            conversionHistory (performConversion l fetch now (Fin a) X X s) =
              take 50 (conversion_record (Fin a) X (Fin a) X 1 now # conversionHistory s))"
proof (intro conjI impI)
  let ?s0 = "hideError (showLoading True s)"
  have g: "getExchangeRate fetch now X X ?s0 = (Inr 1, ?s0)"
    by (rule getExchangeRate_same)
  show "getExchangeRate fetch now X X s = (Inr 1, s)"
    by (rule getExchangeRate_same)
  show "result (performConversion l fetch now (Fin a) X X s) = Some (Fin a, 1)"
    using performConversion_result(1) [OF assms(1,2,3,3) g] by simp
  show "requests (performConversion l fetch now (Fin a) X X s) = requests s"
    using performConversion_result(2) [OF assms(1,2,3,3) g]
    by (simp add: hideError_def showLoading_def showResult_def)
  assume "render_items (conversionHistory s) = Inr ()"
  then have h: "render_items (conversionHistory ?s0) = Inr ()"
    by (simp add: hideError_def showLoading_def showResult_def)
  note p = performConversion_converts [OF assms(1,2,3,3) g h]
  show "errorMessage (performConversion l fetch now (Fin a) X X s) = None"
    unfolding p by (simp add: hideError_def showLoading_def showResult_def)
  show "resultVisible (performConversion l fetch now (Fin a) X X s)"
    unfolding p by (simp add: hideError_def showLoading_def showResult_def)
  show "conversionHistory (performConversion l fetch now (Fin a) X X s) =
          take 50 (conversion_record (Fin a) X (Fin a) X 1 now # conversionHistory s)"
    unfolding p by (simp add: hideError_def showLoading_def showResult_def del: take_Cons_numeral)
qed

theorem same_currency_identity_witness:
  "(0::real) < 100 \<and> (100::real) \<le> 1000000000 \<and> ''USD'' \<noteq> [] \<and>
   render_items (conversionHistory initial) = Inr () \<and>
   result (performConversion example_lib offline 1704067200000 (Fin 100) ''USD'' ''USD'' initial)
     = Some (Fin 100, 1) \<and>
   requests (performConversion example_lib offline 1704067200000 (Fin 100) ''USD'' ''USD'' initial)
     = [] \<and>
   errorMessage (performConversion example_lib offline 1704067200000 (Fin 100) ''USD'' ''USD'' initial)
     = None"
proof -
  have a: "(0::real) < 100" "(100::real) \<le> 1000000000" "''USD'' \<noteq> []" by simp_all
  have r: "render_items (conversionHistory initial) = Inr ()" by (simp add: initial_def)
  have q: "requests initial = []" by (simp add: initial_def)
  from same_currency_identity [OF a, of offline 1704067200000 initial example_lib] r q
  show ?thesis using a by simp
qed

text \<open>
  C1. For a valid amount \<open>a\<close> and two different codes \<open>X\<close> and \<open>Y\<close> whose entries
  \<open>rx\<close> and \<open>ry\<close> are both in the cached rate table (a rate is a positive number),
  the rate used is \<open>ry / rx\<close>, the amount shown is \<open>a * ry / rx\<close>, and \<^verbatim>\<open>fetch\<close> is not
  called. When the history on the page renders, the conversion ends without an error
  message and with its record at the head of the history.
\<close>

theorem cached_cross_rate:
  assumes "0 < a" and "a \<le> 1000000000" and "X \<noteq> Y" and "X \<noteq> []" and "Y \<noteq> []"
    and "map_of (exchangeRates s) X = Some rx" and "map_of (exchangeRates s) Y = Some ry"
    and "0 < rx" and "0 < ry"
  shows "getExchangeRate fetch now X Y s = (Inr (ry / rx), s) \<and>
         result (performConversion l fetch now (Fin a) X Y s) = Some (Fin (a * ry / rx), ry / rx) \<and>
         requests (performConversion l fetch now (Fin a) X Y s) = requests s \<and>
         (render_items (conversionHistory s) = Inr () \<longrightarrow>
            errorMessage (performConversion l fetch now (Fin a) X Y s) = None \<and>
            resultVisible (performConversion l fetch now (Fin a) X Y s) \<and>
            conversionHistory (performConversion l fetch now (Fin a) X Y s) =
              take 50 (conversion_record (Fin a) X (Fin (a * ry / rx)) Y (ry / rx) now
                       # conversionHistory s))"
proof (intro conjI impI)
  let ?s0 = "hideError (showLoading True s)"
  have nz: "rx \<noteq> 0" "ry \<noteq> 0" using assms(8,9) by simp_all
  have e: "exchangeRates ?s0 = exchangeRates s"
    by (simp add: hideError_def showLoading_def showResult_def)
  have g: "getExchangeRate fetch now X Y ?s0 = (Inr (ry / rx), ?s0)"
    by (rule getExchangeRate_cached [OF assms(3) _ _ nz]) (simp_all add: e assms(6,7))
  show "getExchangeRate fetch now X Y s = (Inr (ry / rx), s)"
    by (rule getExchangeRate_cached [OF assms(3,6,7) nz])
  show "result (performConversion l fetch now (Fin a) X Y s) = Some (Fin (a * ry / rx), ry / rx)"
    using performConversion_result(1) [OF assms(1,2,4,5) g] by simp
  show "requests (performConversion l fetch now (Fin a) X Y s) = requests s"
    using performConversion_result(2) [OF assms(1,2,4,5) g]
    by (simp add: hideError_def showLoading_def showResult_def)
  assume "render_items (conversionHistory s) = Inr ()"
  then have h: "render_items (conversionHistory ?s0) = Inr ()"
    by (simp add: hideError_def showLoading_def showResult_def)
  note p = performConversion_converts [OF assms(1,2,4,5) g h]
  show "errorMessage (performConversion l fetch now (Fin a) X Y s) = None"
    unfolding p by (simp add: hideError_def showLoading_def showResult_def)
  show "resultVisible (performConversion l fetch now (Fin a) X Y s)"
    unfolding p by (simp add: hideError_def showLoading_def showResult_def)
  show "conversionHistory (performConversion l fetch now (Fin a) X Y s) =
          take 50 (conversion_record (Fin a) X (Fin (a * ry / rx)) Y (ry / rx) now
                   # conversionHistory s)"
    unfolding p by (simp add: hideError_def showLoading_def showResult_def del: take_Cons_numeral)
qed

theorem cached_cross_rate_witness:
  "(0::real) < 1 \<and> (1::real) \<le> 1000000000 \<and> ''USD'' \<noteq> ''IDR'' \<and> ''USD'' \<noteq> [] \<and> ''IDR'' \<noteq> [] \<and>
   map_of (exchangeRates cached) ''USD'' = Some 1 \<and>
   map_of (exchangeRates cached) ''IDR'' = Some 15000 \<and> (0::real) < 1 \<and> (0::real) < 15000 \<and>
   render_items (conversionHistory cached) = Inr () \<and>
   result (performConversion example_lib offline 1704067200000 (Fin 1) ''USD'' ''IDR'' cached)
     = Some (Fin 15000, 15000) \<and>
   requests (performConversion example_lib offline 1704067200000 (Fin 1) ''USD'' ''IDR'' cached) = [] \<and>
   errorMessage (performConversion example_lib offline 1704067200000 (Fin 1) ''USD'' ''IDR'' cached)
     = None"
proof -
  have a: "(0::real) < 1" "(1::real) \<le> 1000000000" "''USD'' \<noteq> ''IDR''" "''USD'' \<noteq> []"
    "''IDR'' \<noteq> []" by simp_all
  have m: "map_of (exchangeRates cached) ''USD'' = Some 1"
    "map_of (exchangeRates cached) ''IDR'' = Some 15000"
    by (simp_all add: cached_def initial_def)
  have p: "(0::real) < 1" "(0::real) < 15000" by simp_all
  have r: "render_items (conversionHistory cached) = Inr ()"
    by (simp add: cached_def initial_def)
  have q: "requests cached = []" by (simp add: cached_def initial_def)
  from cached_cross_rate [OF a m p, of offline 1704067200000 example_lib] r q
  show ?thesis using a m by simp
qed

subsection \<open>Validation, fetching and errors\<close>

lemma and_then_Inl:
  "and_then r f = Inl e \<Longrightarrow> r = Inl e \<or> (\<exists>x. r = Inr x \<and> f x = Inl e)"
  by (cases r) (simp_all add: and_then_def)

lemma read_prop_error: "read_prop obj k = Inl e \<Longrightarrow> e = TypeError"
  by (auto simp: read_prop_def split: option.splits field.splits json.splits)

lemma coerce_error: "coerce v = Inl e \<Longrightarrow> e = TypeError"
  by (auto simp: coerce_def split: option.splits if_splits)

lemma formatDateTime_error: "formatDateTime d = Inl e \<Longrightarrow> e = RangeError"
  by (auto simp: formatDateTime_def split: option.splits field.splits)

lemma formatNumber_error: "formatNumber v = Inl e \<Longrightarrow> e = TypeError"
  by (auto simp: formatNumber_def split: option.splits field.splits dest: coerce_error)

lemma render_item_error: "render_item c = Inl e \<Longrightarrow> e = TypeError \<or> e = RangeError"
  unfolding render_item_def
  by (blast dest!: and_then_Inl dest: read_prop_error coerce_error formatDateTime_error
      formatNumber_error)

lemma render_items_error: "render_items h = Inl e \<Longrightarrow> e = TypeError \<or> e = RangeError"
proof (induction h)
  case Nil
  then show ?case by simp
next
  case (Cons c h)
  from Cons.prems have "render_item c = Inl e \<or> render_items h = Inl e"
    by (auto dest: and_then_Inl)
  with Cons.IH render_item_error show ?case by blast
qed

lemma log_added_error: "log_added c = Inl e \<Longrightarrow> e = TypeError"
  unfolding log_added_def
  by (fastforce dest!: and_then_Inl dest: read_prop_error coerce_error
      split: option.splits json.splits)

lemma addToHistory_error:
  "addToHistory l c s = (Inl e, s1) \<Longrightarrow> e = TypeError \<or> e = RangeError"
  by (auto simp: addToHistory_def Let_def updateHistoryDisplay_def
      split: prod.splits sum.splits if_splits dest: render_items_error log_added_error)

lemma addToHistory_errorMessage:
  "errorMessage (snd (addToHistory l c s)) = errorMessage s"
  using addToHistory_state [of l c s] by auto

lemma performConversion_try_error:
  assumes "performConversion_try l fetch now x X Y s = (Inl e, s1)"
  shows "e = Error ''Gagal mendapatkan nilai tukar mata uang'' \<or> e = TypeError \<or> e = RangeError"
  using assms
  by (auto simp: performConversion_try_def Let_def split: prod.splits sum.splits
      dest: getExchangeRate_error addToHistory_error)

lemma performConversion_try_errorMessage:
  assumes "performConversion_try l fetch now x X Y s = (Inr u, s1)"
  shows "errorMessage s1 = None"
proof -
  obtain rate s0 where g: "getExchangeRate fetch now X Y (hideError (showLoading True s)) = (Inr rate, s0)"
    using assms by (auto simp: performConversion_try_def split: prod.splits sum.splits)
  have e0: "errorMessage s0 = None"
    using getExchangeRate_frame [of fetch now X Y "hideError (showLoading True s)"] g
    by (simp add: hideError_def)
  let ?s2 = "showResult (s0\<lparr>result := Some (js_times x rate, rate)\<rparr>)"
  let ?c = "conversion_record x X (js_times x rate) Y rate now"
  have "s1 = showLoading False (snd (addToHistory l ?c ?s2))"
    using assms g by (auto simp: performConversion_try_def Let_def split: prod.splits sum.splits)
  then show ?thesis
    using addToHistory_errorMessage [of l ?c ?s2] e0
    by (simp add: showLoading_def showResult_def)
qed

lemma performConversion_message:
  assumes "0 < a" "a \<le> 1000000000" "X \<noteq> []" "Y \<noteq> []"
  shows "errorMessage (performConversion l fetch now (Fin a) X Y s) \<in>
           {None, Some (Text ''Gagal mendapatkan nilai tukar mata uang''),
            Some (MessageOf TypeError), Some (MessageOf RangeError)}"
proof -
  obtain r s1 where t: "performConversion_try l fetch now (Fin a) X Y s = (r, s1)"
    by (cases "performConversion_try l fetch now (Fin a) X Y s")
  show ?thesis
  proof (cases r)
    case (Inl e)
    with t performConversion_try_error
    have "e = Error ''Gagal mendapatkan nilai tukar mata uang'' \<or> e = TypeError \<or> e = RangeError"
      by blast
    then show ?thesis
      using valid_amount [OF assms(1,2)] assms(3,4) t Inl
      by (auto simp: performConversion_def showLoading_def showError_def hideResult_def
          message_or_default_def)
  next
    case (Inr u)
    with t performConversion_try_errorMessage have "errorMessage s1 = None" by blast
    then show ?thesis
      using valid_amount [OF assms(1,2)] assms(3,4) t Inr
      by (simp add: performConversion_def)
  qed
qed

text \<open>
  C3, as amended. For two codes \<open>X\<close> and \<open>Y\<close>: the amount 0 is turned away without a
  word (the result is hidden, the message on the page is what it was); the amount \<open>-5\<close>
  is turned away with the message that the amount must be greater than 0, the amount
  1,000,000,001 with the message that it is too large; none of the three calls \<^verbatim>\<open>fetch\<close>.
  The amount 1,000,000,000 passes: no validation message is shown, and whenever
  \<^verbatim>\<open>getExchangeRate\<close> returns a rate the product is shown.
\<close>

theorem validation_boundary:
  assumes "X \<noteq> []" and "Y \<noteq> []"
  shows "performConversion l fetch now (Fin 0) X Y s = hideResult s \<and>
         errorMessage (performConversion l fetch now (Fin 0) X Y s) = errorMessage s \<and>
         performConversion l fetch now (Fin (- 5)) X Y s =
           showError (Text ''Jumlah harus lebih besar dari 0'') s \<and>
         performConversion l fetch now (Fin 1000000001) X Y s =
           showError (Text ''Jumlah terlalu besar. Maksimal 1 miliar'') s \<and>
         requests (performConversion l fetch now (Fin 0) X Y s) = requests s \<and>
         requests (performConversion l fetch now (Fin (- 5)) X Y s) = requests s \<and>
         requests (performConversion l fetch now (Fin 1000000001) X Y s) = requests s \<and>
         errorMessage (performConversion l fetch now (Fin 1000000000) X Y s) \<notin>
           {Some (Text ''Jumlah harus lebih besar dari 0''),
            Some (Text ''Jumlah terlalu besar. Maksimal 1 miliar'')} \<and>
         (\<forall>rate s1. getExchangeRate fetch now X Y (hideError (showLoading True s)) = (Inr rate, s1) \<longrightarrow>
            result (performConversion l fetch now (Fin 1000000000) X Y s) =
              Some (Fin (1000000000 * rate), rate))"
proof -
  have z: "performConversion l fetch now (Fin 0) X Y s = hideResult s"
    by (simp add: performConversion_def js_not_def)
  have n: "performConversion l fetch now (Fin (- 5)) X Y s =
           showError (Text ''Jumlah harus lebih besar dari 0'') s"
    using assms by (simp add: performConversion_def js_not_def js_le_zero_def)
  have b: "performConversion l fetch now (Fin 1000000001) X Y s =
           showError (Text ''Jumlah terlalu besar. Maksimal 1 miliar'') s"
    using assms by (simp add: performConversion_def js_not_def js_le_zero_def js_gt_def)
  have v: "(0::real) < 1000000000" "(1000000000::real) \<le> 1000000000" by simp_all
  have m: "errorMessage (performConversion l fetch now (Fin 1000000000) X Y s) \<notin>
           {Some (Text ''Jumlah harus lebih besar dari 0''),
            Some (Text ''Jumlah terlalu besar. Maksimal 1 miliar'')}"
    using performConversion_message [OF v assms, of l fetch now s] by auto
  have c: "\<forall>rate s1. getExchangeRate fetch now X Y (hideError (showLoading True s)) = (Inr rate, s1) \<longrightarrow>
            result (performConversion l fetch now (Fin 1000000000) X Y s) =
              Some (Fin (1000000000 * rate), rate)"
    using performConversion_result(1) [OF v assms] by blast
  show ?thesis
    unfolding z n b using m c
    by (simp add: hideResult_def showError_def)
qed

theorem validation_boundary_witness:
  "''USD'' \<noteq> [] \<and> ''IDR'' \<noteq> [] \<and>
   errorMessage (performConversion example_lib offline 1704067200000 (Fin 0) ''USD'' ''IDR'' cached)
     = None \<and>
   errorMessage (performConversion example_lib offline 1704067200000 (Fin (- 5)) ''USD'' ''IDR'' cached)
     = Some (Text ''Jumlah harus lebih besar dari 0'') \<and>
   errorMessage (performConversion example_lib offline 1704067200000 (Fin 1000000001) ''USD'' ''IDR'' cached)
     = Some (Text ''Jumlah terlalu besar. Maksimal 1 miliar'') \<and>
   result (performConversion example_lib offline 1704067200000 (Fin 1000000000) ''USD'' ''IDR'' cached)
     = Some (Fin 15000000000000, 15000)"
proof -
  have a: "''USD'' \<noteq> []" "''IDR'' \<noteq> []" by simp_all
  have g: "getExchangeRate offline 1704067200000 ''USD'' ''IDR'' (hideError (showLoading True cached))
           = (Inr 15000, hideError (showLoading True cached))"
    by (simp add: getExchangeRate_def getExchangeRate_try_def truthy_rate_def cached_def
        initial_def hideError_def showLoading_def showResult_def)
  have e: "errorMessage cached = None" by (simp add: cached_def initial_def)
  from validation_boundary [OF a, of example_lib offline 1704067200000 cached] g e
  show ?thesis by (simp add: showError_def hideResult_def)
qed

text \<open>
  C3 as stated fails at the amount 0: with dollars and rupiah selected the call changes
  nothing, and no message is shown.
\<close>

theorem zero_amount_counterexample:
  "performConversion example_lib offline 1704067200000 (Fin 0) ''USD'' ''IDR'' cached = cached \<and>
   errorMessage cached = None"
  by (simp add: performConversion_def js_not_def hideResult_def cached_def initial_def)

lemma truthy_rate_absent:
  "map_of rates X = None \<or> map_of rates Y = None \<Longrightarrow> \<not> (truthy_rate rates X \<and> truthy_rate rates Y)"
  by (auto simp: truthy_rate_def)

lemma getExchangeRate_fetches:
  assumes "X \<noteq> Y" and "\<not> (truthy_rate (exchangeRates s) X \<and> truthy_rate (exchangeRates s) Y)"
  shows "requests (snd (getExchangeRate fetch now X Y s)) = requests s @ [baseURL @ X]"
  using assms
  by (simp add: getExchangeRate_def getExchangeRate_try_def fetchWithTimeout_def Let_def
      split: fetch_result.splits body.splits rates_field.splits)

lemma getExchangeRate_fresh:
  assumes "X \<noteq> Y" and "\<not> (truthy_rate (exchangeRates s) X \<and> truthy_rate (exchangeRates s) Y)"
    and "fetch (baseURL @ X) = Resolves r" and "ok r" and "body r = JsonData (RatesObject t)"
    and "map_of t Y = Some v" and "v \<noteq> 0"
  shows "getExchangeRate fetch now X Y s =
           (Inr v, s\<lparr>requests := requests s @ [baseURL @ X], apiCallCount := apiCallCount s + 1\<rparr>)"
proof -
  have "truthy_rate t Y" using assms(6,7) by (simp add: truthy_rate_def)
  then show ?thesis
    using assms(1-6)
    by (auto simp: getExchangeRate_def getExchangeRate_try_def fetchWithTimeout_def Let_def)
qed

lemma getExchangeRate_unavailable:
  assumes "X \<noteq> Y" and "\<not> (truthy_rate (exchangeRates s) X \<and> truthy_rate (exchangeRates s) Y)"
    and "fetch (baseURL @ X) = Resolves r" and "ok r" and "body r = JsonData (RatesObject t)"
    and "map_of t Y = None"
  shows "getExchangeRate fetch now X Y s =
           (Inl (Error ''Gagal mendapatkan nilai tukar mata uang''),
            s\<lparr>requests := requests s @ [baseURL @ X],
              errors := errors s @
                [\<lparr>message = Error (''Exchange rate not available for '' @ Y), timestamp = now,
                  origin = ''getExchangeRate'', pair = Some (X, Y)\<rparr>]\<rparr>)"
proof -
  have "\<not> truthy_rate t Y" using assms(6) by (simp add: truthy_rate_def)
  then show ?thesis
    using assms(1-5)
    by (auto simp: getExchangeRate_def getExchangeRate_try_def fetchWithTimeout_def Let_def)
qed

lemma performConversion_frame:
  assumes "0 < a" "a \<le> 1000000000" "X \<noteq> []" "Y \<noteq> []"
  shows "requests (performConversion l fetch now (Fin a) X Y s) =
           requests (snd (getExchangeRate fetch now X Y (hideError (showLoading True s))))"
    and "exchangeRates (performConversion l fetch now (Fin a) X Y s) = exchangeRates s"
proof -
  let ?s0 = "hideError (showLoading True s)"
  obtain r s1 where g: "getExchangeRate fetch now X Y ?s0 = (r, s1)"
    by (cases "getExchangeRate fetch now X Y ?s0")
  have e: "exchangeRates s1 = exchangeRates s"
    using getExchangeRate_frame [of fetch now X Y ?s0] g
    by (simp add: hideError_def showLoading_def showResult_def)
  have "requests (performConversion l fetch now (Fin a) X Y s) = requests s1 \<and>
        exchangeRates (performConversion l fetch now (Fin a) X Y s) = exchangeRates s1"
  proof (cases r)
    case (Inl x)
    then show ?thesis
      using valid_amount [OF assms(1,2)] assms(3,4) g
      by (simp add: performConversion_def performConversion_try_def showLoading_def showError_def
          hideResult_def)
  next
    case (Inr rate)
    then show ?thesis
      using performConversion_result(2,3) [OF assms] g by simp
  qed
  then show "requests (performConversion l fetch now (Fin a) X Y s) =
           requests (snd (getExchangeRate fetch now X Y (hideError (showLoading True s))))"
    and "exchangeRates (performConversion l fetch now (Fin a) X Y s) = exchangeRates s"
    using g e by simp_all
qed

text \<open>
  C8. For two different codes of which one has no entry in the cached table,
  \<^verbatim>\<open>getExchangeRate\<close> calls \<^verbatim>\<open>fetch\<close> once, for the URL of the source currency, and
  leaves the cached table as it was; when the response is OK and its table has the
  (positive) entry \<open>v\<close> for the target, it returns \<open>v\<close>, and the only other change
  is the count of API calls. The same holds of a conversion of a valid amount.
\<close>

theorem fresh_fetch_frame:
  assumes "X \<noteq> Y"
    and "map_of (exchangeRates s) X = None \<or> map_of (exchangeRates s) Y = None"
  shows "requests (snd (getExchangeRate fetch now X Y s)) = requests s @ [baseURL @ X] \<and>
         exchangeRates (snd (getExchangeRate fetch now X Y s)) = exchangeRates s \<and>
         (\<forall>r t v. fetch (baseURL @ X) = Resolves r \<and> ok r \<and> body r = JsonData (RatesObject t) \<and>
                  map_of t Y = Some v \<and> 0 < v \<longrightarrow>
            getExchangeRate fetch now X Y s =
              (Inr v, s\<lparr>requests := requests s @ [baseURL @ X],
                         apiCallCount := apiCallCount s + 1\<rparr>)) \<and>
         (\<forall>a. 0 < a \<and> a \<le> 1000000000 \<and> X \<noteq> [] \<and> Y \<noteq> [] \<longrightarrow>
            requests (performConversion l fetch now (Fin a) X Y s) = requests s @ [baseURL @ X] \<and>
            exchangeRates (performConversion l fetch now (Fin a) X Y s) = exchangeRates s)"
proof (intro conjI allI impI)
  note nt = truthy_rate_absent [OF assms(2)]
  show "requests (snd (getExchangeRate fetch now X Y s)) = requests s @ [baseURL @ X]"
    by (rule getExchangeRate_fetches [OF assms(1) nt])
  show "exchangeRates (snd (getExchangeRate fetch now X Y s)) = exchangeRates s"
    using getExchangeRate_frame by blast
  show "getExchangeRate fetch now X Y s =
          (Inr v, s\<lparr>requests := requests s @ [baseURL @ X], apiCallCount := apiCallCount s + 1\<rparr>)"
    if "fetch (baseURL @ X) = Resolves r \<and> ok r \<and> body r = JsonData (RatesObject t) \<and>
        map_of t Y = Some v \<and> 0 < v" for r t v
    using that by (intro getExchangeRate_fresh [OF assms(1) nt]) auto
  fix a :: real
  assume a: "0 < a \<and> a \<le> 1000000000 \<and> X \<noteq> [] \<and> Y \<noteq> []"
  let ?s0 = "hideError (showLoading True s)"
  have e0: "exchangeRates ?s0 = exchangeRates s" "requests ?s0 = requests s"
    by (simp_all add: hideError_def showLoading_def showResult_def)
  have nt0: "\<not> (truthy_rate (exchangeRates ?s0) X \<and> truthy_rate (exchangeRates ?s0) Y)"
    using nt by (simp add: e0)
  show "requests (performConversion l fetch now (Fin a) X Y s) = requests s @ [baseURL @ X]"
    using performConversion_frame(1) [of a X Y l fetch now s] a
      getExchangeRate_fetches [OF assms(1) nt0, of fetch now]
    by (simp add: e0)
  show "exchangeRates (performConversion l fetch now (Fin a) X Y s) = exchangeRates s"
    using performConversion_frame(2) [of a X Y l fetch now s] a by simp
qed

theorem fresh_fetch_frame_witness:
  "''USD'' \<noteq> ''EUR'' \<and>
   (map_of (exchangeRates initial) ''USD'' = None \<or> map_of (exchangeRates initial) ''EUR'' = None) \<and>
   usd_two (baseURL @ ''USD'') =
     Resolves \<lparr>ok = True, status = 200, body = JsonData (RatesObject [(''USD'', 2), (''EUR'', 1)])\<rparr> \<and>
   map_of [(''USD'', 2), (''EUR'', 1 :: real)] ''EUR'' = Some 1 \<and> (0::real) < 1 \<and>
   getExchangeRate usd_two 1704067200000 ''USD'' ''EUR'' initial =
     (Inr 1, initial\<lparr>requests := [baseURL @ ''USD''], apiCallCount := 1\<rparr>) \<and>
   requests (performConversion example_lib usd_two 1704067200000 (Fin 100) ''USD'' ''EUR'' initial)
     = [baseURL @ ''USD''] \<and>
   exchangeRates (performConversion example_lib usd_two 1704067200000 (Fin 100) ''USD'' ''EUR'' initial)
     = []"
proof -
  have a: "''USD'' \<noteq> ''EUR''" by simp
  have b: "map_of (exchangeRates initial) ''USD'' = None \<or> map_of (exchangeRates initial) ''EUR'' = None"
    by (simp add: initial_def)
  have c: "usd_two (baseURL @ ''USD'') =
     Resolves \<lparr>ok = True, status = 200, body = JsonData (RatesObject [(''USD'', 2), (''EUR'', 1)])\<rparr>"
    by (simp add: usd_two_def)
  have d: "map_of [(''USD'', 2), (''EUR'', 1 :: real)] ''EUR'' = Some 1" by simp
  have i: "requests initial = []" "apiCallCount initial = 0" "exchangeRates initial = []"
    by (simp_all add: initial_def)
  note t = fresh_fetch_frame [OF a b, of usd_two 1704067200000 example_lib]
  from t c d have "getExchangeRate usd_two 1704067200000 ''USD'' ''EUR'' initial =
     (Inr 1, initial\<lparr>requests := requests initial @ [baseURL @ ''USD''],
                     apiCallCount := apiCallCount initial + 1\<rparr>)"
    by (metis response.select_convs(1,3) zero_less_one)
  moreover from t have "requests (performConversion example_lib usd_two 1704067200000 (Fin 100) ''USD'' ''EUR'' initial)
     = requests initial @ [baseURL @ ''USD''] \<and>
   exchangeRates (performConversion example_lib usd_two 1704067200000 (Fin 100) ''USD'' ''EUR'' initial)
     = exchangeRates initial"
    by simp
  ultimately show ?thesis using a b c d by (simp add: i)
qed

text \<open>
  C9, as amended. When \<^verbatim>\<open>getExchangeRate\<close> fetches, the response is OK and its table
  has no entry for the target, it throws the error with the general message
  \<^verbatim>\<open>Gagal mendapatkan nilai tukar mata uang\<close>; the message that names the currency goes
  to the error log of the application; a conversion of a valid amount shows the general
  message and hides the result.
\<close>

theorem unsupported_target_generic:
  assumes "X \<noteq> Y"
    and "\<not> (truthy_rate (exchangeRates s) X \<and> truthy_rate (exchangeRates s) Y)"
    and "fetch (baseURL @ X) = Resolves r" and "ok r" and "body r = JsonData (RatesObject t)"
    and "map_of t Y = None"
  shows "fst (getExchangeRate fetch now X Y s) = Inl (Error ''Gagal mendapatkan nilai tukar mata uang'') \<and>
         errors (snd (getExchangeRate fetch now X Y s)) =
           errors s @ [\<lparr>message = Error (''Exchange rate not available for '' @ Y), timestamp = now,
                        origin = ''getExchangeRate'', pair = Some (X, Y)\<rparr>] \<and>
         (\<forall>a. 0 < a \<and> a \<le> 1000000000 \<and> X \<noteq> [] \<and> Y \<noteq> [] \<longrightarrow>
            errorMessage (performConversion l fetch now (Fin a) X Y s) =
              Some (Text ''Gagal mendapatkan nilai tukar mata uang'') \<and>
            \<not> resultVisible (performConversion l fetch now (Fin a) X Y s))"
proof (intro conjI allI impI)
  note g = getExchangeRate_unavailable [where fetch = fetch and now = now, OF assms]
  show "fst (getExchangeRate fetch now X Y s) = Inl (Error ''Gagal mendapatkan nilai tukar mata uang'')"
    by (simp add: g)
  show "errors (snd (getExchangeRate fetch now X Y s)) =
           errors s @ [\<lparr>message = Error (''Exchange rate not available for '' @ Y), timestamp = now,
                        origin = ''getExchangeRate'', pair = Some (X, Y)\<rparr>]"
    by (simp add: g)
  fix a :: real
  assume a: "0 < a \<and> a \<le> 1000000000 \<and> X \<noteq> [] \<and> Y \<noteq> []"
  let ?s0 = "hideError (showLoading True s)"
  have nt0: "\<not> (truthy_rate (exchangeRates ?s0) X \<and> truthy_rate (exchangeRates ?s0) Y)"
    using assms(2) by (simp add: hideError_def showLoading_def showResult_def)
  note g0 = getExchangeRate_unavailable [where fetch = fetch and now = now, OF assms(1) nt0 assms(3-6)]
  have p: "performConversion l fetch now (Fin a) X Y s =
        showLoading False (showError (Text ''Gagal mendapatkan nilai tukar mata uang'')
          (snd (getExchangeRate fetch now X Y ?s0)))"
    using valid_amount [of a] a
    by (simp add: performConversion_def performConversion_try_def g0 message_or_default_def)
  show "errorMessage (performConversion l fetch now (Fin a) X Y s) =
          Some (Text ''Gagal mendapatkan nilai tukar mata uang'')"
    unfolding p by (simp add: showLoading_def showError_def hideResult_def)
  show "\<not> resultVisible (performConversion l fetch now (Fin a) X Y s)"
    unfolding p by (simp add: showLoading_def showError_def hideResult_def)
qed

theorem unsupported_target_generic_witness:
  "''USD'' \<noteq> ''EUR'' \<and>
   \<not> (truthy_rate (exchangeRates initial) ''USD'' \<and> truthy_rate (exchangeRates initial) ''EUR'') \<and>
   usd_only (baseURL @ ''USD'') =
     Resolves \<lparr>ok = True, status = 200, body = JsonData (RatesObject [(''USD'', 1)])\<rparr> \<and>
   map_of [(''USD'', 1 :: real)] ''EUR'' = None \<and>
   fst (getExchangeRate usd_only 1704067200000 ''USD'' ''EUR'' initial) =
     Inl (Error ''Gagal mendapatkan nilai tukar mata uang'') \<and>
   errors (snd (getExchangeRate usd_only 1704067200000 ''USD'' ''EUR'' initial)) =
     [\<lparr>message = Error ''Exchange rate not available for EUR'', timestamp = 1704067200000,
       origin = ''getExchangeRate'', pair = Some (''USD'', ''EUR'')\<rparr>] \<and>
   errorMessage (performConversion example_lib usd_only 1704067200000 (Fin 100) ''USD'' ''EUR'' initial) =
     Some (Text ''Gagal mendapatkan nilai tukar mata uang'')"
proof -
  have a: "''USD'' \<noteq> ''EUR''" by simp
  have b: "\<not> (truthy_rate (exchangeRates initial) ''USD'' \<and> truthy_rate (exchangeRates initial) ''EUR'')"
    by (simp add: initial_def truthy_rate_def)
  have c: "usd_only (baseURL @ ''USD'') =
     Resolves \<lparr>ok = True, status = 200, body = JsonData (RatesObject [(''USD'', 1)])\<rparr>"
    by (simp add: usd_only_def)
  have d: "ok \<lparr>ok = True, status = 200, body = JsonData (RatesObject [(''USD'', 1)])\<rparr>"
    "body \<lparr>ok = True, status = 200, body = JsonData (RatesObject [(''USD'', 1)])\<rparr> =
       JsonData (RatesObject [(''USD'', 1)])"
    "map_of [(''USD'', 1 :: real)] ''EUR'' = None"
    by simp_all
  have i: "errors initial = []" by (simp add: initial_def)
  from unsupported_target_generic [where fetch = usd_only and now = 1704067200000 and l = example_lib,
      OF a b c d] a b c d(3)
  show ?thesis by (simp add: i)
qed

text \<open>
  C9 as stated fails: the provider answers for dollars without the euro; neither what
  \<^verbatim>\<open>getExchangeRate\<close> throws nor what the page shows is the message that names the euro.
\<close>

theorem unsupported_target_counterexample:
  "fst (getExchangeRate usd_only 1704067200000 ''USD'' ''EUR'' initial) \<noteq>
     Inl (Error ''Exchange rate not available for EUR'') \<and>
   errorMessage (performConversion example_lib usd_only 1704067200000 (Fin 100) ''USD'' ''EUR'' initial) \<noteq>
     Some (Text ''Exchange rate not available for EUR'')"
  by (simp add: performConversion_def performConversion_try_def getExchangeRate_def
      getExchangeRate_try_def fetchWithTimeout_def usd_only_def truthy_rate_def initial_def
      js_not_def js_le_zero_def js_gt_def hideError_def showLoading_def showResult_def
      showError_def hideResult_def message_or_default_def Let_def)

lemma loadCurrencies_success:
  assumes "fst (loadCurrencies fetch now s) = Inr ()"
  shows "\<exists>r t. fetch (baseURL @ ''USD'') = Resolves r \<and> ok r \<and> body r = JsonData (RatesObject t) \<and>
           exchangeRates (snd (loadCurrencies fetch now s)) =
             (if ''USD'' \<in> fst ` set t then t else t @ [(''USD'', 1)])"
  using assms
  by (auto simp: loadCurrencies_def loadCurrencies_try_def fetchWithTimeout_def Let_def hideError_def
      split: fetch_result.splits body.splits rates_field.splits if_splits)

text \<open>
  C10, as amended. After a load that succeeded, the rate table has an entry for the
  dollar: the entry of the response when it has one, and 1 when it has none.
\<close>

theorem base_rate_after_load:
  assumes "fst (loadCurrencies fetch now s) = Inr ()"
  shows "\<exists>r t. fetch (baseURL @ ''USD'') = Resolves r \<and> ok r \<and> body r = JsonData (RatesObject t) \<and>
           map_of (exchangeRates (snd (loadCurrencies fetch now s))) ''USD'' =
             Some (case map_of t ''USD'' of None \<Rightarrow> 1 | Some v \<Rightarrow> v)"
proof -
  from loadCurrencies_success [OF assms] obtain r t where
    f: "fetch (baseURL @ ''USD'') = Resolves r" "ok r" "body r = JsonData (RatesObject t)"
    and e: "exchangeRates (snd (loadCurrencies fetch now s)) =
             (if ''USD'' \<in> fst ` set t then t else t @ [(''USD'', 1)])"
    by blast
  have "map_of (exchangeRates (snd (loadCurrencies fetch now s))) ''USD'' =
             Some (case map_of t ''USD'' of None \<Rightarrow> 1 | Some v \<Rightarrow> v)"
  proof (cases "map_of t ''USD''")
    case None
    then have "''USD'' \<notin> fst ` set t" by (simp add: map_of_eq_None_iff)
    then show ?thesis using None e by (simp add: map_add_def)
  next
    case (Some v)
    then have "''USD'' \<in> fst ` set t" by (metis map_of_eq_None_iff option.distinct(1))
    then show ?thesis using Some e by simp
  qed
  with f show ?thesis by blast
qed

theorem base_rate_after_load_witness:
  "fst (loadCurrencies usd_only 1704067200000 initial) = Inr () \<and>
   map_of (exchangeRates (snd (loadCurrencies usd_only 1704067200000 initial))) ''USD'' = Some 1"
proof -
  have s: "fst (loadCurrencies usd_only 1704067200000 initial) = Inr ()"
    by (simp add: loadCurrencies_def loadCurrencies_try_def fetchWithTimeout_def usd_only_def
        Let_def)
  from base_rate_after_load [OF s] obtain r t where
    "usd_only (baseURL @ ''USD'') = Resolves r" "body r = JsonData (RatesObject t)"
    "map_of (exchangeRates (snd (loadCurrencies usd_only 1704067200000 initial))) ''USD'' =
       Some (case map_of t ''USD'' of None \<Rightarrow> 1 | Some v \<Rightarrow> v)"
    by blast
  then show ?thesis using s by (auto simp: usd_only_def)
qed

text \<open>
  C10 as stated fails for a response whose table gives 2 for the dollar: the load
  succeeds and the table keeps the 2.
\<close>

theorem base_rate_counterexample:
  "fst (loadCurrencies usd_two 1704067200000 initial) = Inr () \<and>
   map_of (exchangeRates (snd (loadCurrencies usd_two 1704067200000 initial))) ''USD'' = Some 2"
  by (simp add: loadCurrencies_def loadCurrencies_try_def fetchWithTimeout_def usd_two_def
      Let_def hideError_def)

subsection \<open>Loading the stored history\<close>

lemma and_then_Inr:
  "and_then r f = Inr y \<Longrightarrow> \<exists>x. r = Inr x \<and> f x = Inr y"
  by (cases r) (simp_all add: and_then_def)

lemma loadHistoryFromStorage_returns: "fst (loadHistoryFromStorage l s) = Inr ()"
  by (simp add: loadHistoryFromStorage_def split: prod.splits sum.splits)

lemma loadHistoryFromStorage_caught:
  "fst (loadHistoryFromStorage_try l s) = Inl e \<Longrightarrow>
     conversionHistory (snd (loadHistoryFromStorage l s)) = []"
  by (auto simp: loadHistoryFromStorage_def split: prod.splits sum.splits)

lemma updateHistoryDisplay_Inl:
  "render_items (conversionHistory s) = Inl e \<Longrightarrow> updateHistoryDisplay s = (Inl e, s)"
  by (cases "conversionHistory s") (simp_all add: updateHistoryDisplay_def)

lemma updateHistoryDisplay_Inr:
  "render_items (conversionHistory s) = Inr () \<Longrightarrow>
     updateHistoryDisplay s = (Inr (), s\<lparr>historyList := conversionHistory s\<rparr>)"
  by (simp add: updateHistoryDisplay_def)

paragraph \<open>Round trip\<close>

lemma revive_record:
  assumes "Date_parse l (toISOString l t) = Some t"
  shows "revive l (JObj (map (\<lambda>kv. (fst kv, serialize_field l (snd kv)))
                      (conversion_record (Fin a1) c1 (Fin a2) c2 r t))) =
           Inr (conversion_record (Fin a1) c1 (Fin a2) c2 r t)"
  using assms
  by (simp add: revive_def conversion_record_def serialize_field_def spread_def Date_new_def
      and_then_def)

lemma revive_all_records:
  assumes "\<forall>c \<in> set h. well_formed l c"
  shows "revive_all l (map (\<lambda>c. JObj (map (\<lambda>kv. (fst kv, serialize_field l (snd kv))) c)) h) = Inr h"
  using assms
proof (induction h)
  case Nil
  then show ?case by simp
next
  case (Cons c h)
  from Cons.prems have "well_formed l c" by simp
  then have "revive l (JObj (map (\<lambda>kv. (fst kv, serialize_field l (snd kv))) c)) = Inr c"
    unfolding well_formed_def using revive_record by blast
  with Cons show ?case by (simp add: and_then_def)
qed

lemma render_items_records:
  assumes "\<forall>c \<in> set h. well_formed l c"
  shows "render_items h = Inr ()"
  unfolding render_items_iff using assms by (auto simp: well_formed_def)

lemma load_saved:
  assumes "\<forall>c \<in> set h. well_formed l c"
    and "conversionHistoryData s = Some (JSON_stringify l h)"
  shows "loadHistoryFromStorage l s = (Inr (), s\<lparr>conversionHistory := h, historyList := h\<rparr>)"
proof -
  have "render_items (conversionHistory (s\<lparr>conversionHistory := h\<rparr>)) = Inr ()"
    using render_items_records [OF assms(1)] by simp
  from updateHistoryDisplay_Inr [OF this]
  have "loadHistoryFromStorage_try l s = (Inr (), s\<lparr>conversionHistory := h, historyList := h\<rparr>)"
    by (simp add: loadHistoryFromStorage_try_def assms(2) JSON_stringify_def JSON_parse_def
        revive_all_records [OF assms(1)])
  then show ?thesis by (simp add: loadHistoryFromStorage_def)
qed

text \<open>
  C5. When every record of a history is well formed, the text that
  \<^verbatim>\<open>saveHistoryToStorage\<close> stores for it is loaded by \<^verbatim>\<open>loadHistoryFromStorage\<close>, in any
  state that holds this text, as the same records in the same order, each with the date
  (in milliseconds) it had; the load does not throw.
\<close>

theorem persistence_roundtrip:
  assumes "\<forall>c \<in> set (conversionHistory s0).
             \<exists>a1 c1 a2 c2 r t. c = conversion_record (Fin a1) c1 (Fin a2) c2 r t \<and>
               Date_parse l (toISOString l t) = Some t"
    and "conversionHistoryData s = conversionHistoryData (saveHistoryToStorage l s0)"
  shows "fst (loadHistoryFromStorage l s) = Inr () \<and>
         conversionHistory (snd (loadHistoryFromStorage l s)) = conversionHistory s0"
proof -
  have w: "\<forall>c \<in> set (conversionHistory s0). well_formed l c"
    using assms(1) by (simp add: well_formed_def)
  have d: "conversionHistoryData s = Some (JSON_stringify l (conversionHistory s0))"
    using assms(2) by (simp add: saveHistoryToStorage_def)
  show ?thesis by (simp add: load_saved [OF w d])
qed

theorem persistence_roundtrip_witness:
  "Date_parse example_lib (toISOString example_lib 1704153600000) = Some 1704153600000 \<and>
   Date_parse example_lib (toISOString example_lib 1704067200000) = Some 1704067200000 \<and>
   conversionHistory
     (snd (loadHistoryFromStorage example_lib
        (initial\<lparr>conversionHistoryData :=
           conversionHistoryData
             (saveHistoryToStorage example_lib (initial\<lparr>conversionHistory := two_records\<rparr>))\<rparr>)))
     = two_records"
proof -
  have d: "Date_parse example_lib (toISOString example_lib 1704153600000) = Some 1704153600000"
    "Date_parse example_lib (toISOString example_lib 1704067200000) = Some 1704067200000"
    by (simp_all add: example_lib_def)
  have w: "\<forall>c \<in> set (conversionHistory (initial\<lparr>conversionHistory := two_records\<rparr>)).
      \<exists>a1 c1 a2 c2 r t. c = conversion_record (Fin a1) c1 (Fin a2) c2 r t \<and>
        Date_parse example_lib (toISOString example_lib t) = Some t"
  proof -
    have "\<exists>a1 c1 a2 c2 r t.
            conversion_record (Fin 1) ''USD'' (Fin 15000) ''IDR'' 15000 1704153600000 =
              conversion_record (Fin a1) c1 (Fin a2) c2 r t \<and>
            Date_parse example_lib (toISOString example_lib t) = Some t"
      using d(1) by blast
    moreover have "\<exists>a1 c1 a2 c2 r t.
            conversion_record (Fin 15000) ''IDR'' (Fin 1) ''USD'' (1 / 15000) 1704067200000 =
              conversion_record (Fin a1) c1 (Fin a2) c2 r t \<and>
            Date_parse example_lib (toISOString example_lib t) = Some t"
      using d(2) by blast
    ultimately show ?thesis by (simp add: two_records_def)
  qed
  have e: "conversionHistoryData (initial\<lparr>conversionHistoryData :=
           conversionHistoryData
             (saveHistoryToStorage example_lib (initial\<lparr>conversionHistory := two_records\<rparr>))\<rparr>) =
        conversionHistoryData
             (saveHistoryToStorage example_lib (initial\<lparr>conversionHistory := two_records\<rparr>))"
    by simp
  from persistence_roundtrip [OF w e] d show ?thesis by simp
qed

paragraph \<open>Loads that end with the empty history\<close>

lemma revive_all_Inr:
  "revive_all l items = Inr h \<Longrightarrow> item \<in> set items \<Longrightarrow> \<exists>c \<in> set h. revive l item = Inr c"
proof (induction items arbitrary: h)
  case Nil
  then show ?case by simp
next
  case (Cons x xs)
  from Cons.prems(1) obtain c cs where
    c: "revive l x = Inr c" and cs: "revive_all l xs = Inr cs" and h: "h = c # cs"
    by (auto dest!: and_then_Inr)
  show ?case
  proof (cases "item = x")
    case True
    with c h show ?thesis by simp
  next
    case False
    with Cons.prems(2) have "item \<in> set xs" by simp
    from Cons.IH [OF cs this] h show ?thesis by auto
  qed
qed

lemma load_array:
  assumes "conversionHistoryData s = Some (JsonText (JArr items))"
    and "item \<in> set items"
    and "\<And>c. revive l item = Inr c \<Longrightarrow> render_item c \<noteq> Inr ()"
  shows "conversionHistory (snd (loadHistoryFromStorage l s)) = []"
proof (cases "revive_all l items")
  case (Inl e)
  then have "fst (loadHistoryFromStorage_try l s) = Inl e"
    by (simp add: loadHistoryFromStorage_try_def assms(1) JSON_parse_def)
  then show ?thesis by (rule loadHistoryFromStorage_caught)
next
  case (Inr h)
  from revive_all_Inr [OF Inr assms(2)] obtain c where c: "c \<in> set h" "revive l item = Inr c"
    by blast
  with assms(3) have "render_item c \<noteq> Inr ()" by blast
  with c(1) have "render_items h \<noteq> Inr ()" by (auto simp: render_items_iff)
  then obtain e where e: "render_items h = Inl e" by (cases "render_items h") auto
  then have "render_items (conversionHistory (s\<lparr>conversionHistory := h\<rparr>)) = Inl e" by simp
  from updateHistoryDisplay_Inl [OF this]
  have "fst (loadHistoryFromStorage_try l s) = Inl e"
    by (simp add: loadHistoryFromStorage_try_def assms(1) JSON_parse_def Inr)
  then show ?thesis by (rule loadHistoryFromStorage_caught)
qed

lemma map_of_spread_obj:
  "map_of (map (\<lambda>kv. (fst kv, Data (snd kv))) kvs) k = map_option Data (map_of kvs k)"
  by (induction kvs) auto

lemma digit_char: "m < 10 \<Longrightarrow> ''0123456789'' ! m \<in> set ''0123456789''"
  by (rule nth_mem) simp

lemma show_nat_digits: "set (show_nat n) \<subseteq> set ''0123456789''"
proof (induction n rule: show_nat.induct)
  case (1 n)
  show ?case
  proof (cases "n < 10")
    case True
    then show ?thesis using digit_char [of n] by (subst show_nat.simps) simp
  next
    case False
    with 1 have "set (show_nat (n div 10)) \<subseteq> set ''0123456789''" by simp
    moreover have "''0123456789'' ! (n mod 10) \<in> set ''0123456789''" by (rule digit_char) simp
    ultimately show ?thesis using False by (subst show_nat.simps) simp
  qed
qed

lemma show_nat_not_from: "show_nat n \<noteq> ''from''"
proof
  assume "show_nat n = ''from''"
  with show_nat_digits [of n] show False by simp
qed

lemma map_of_indices: "map_of (zip (map show_nat ns) vs) ''from'' = None"
proof -
  have "''from'' \<notin> set (map show_nat ns)"
  proof
    assume "''from'' \<in> set (map show_nat ns)"
    then obtain n where "show_nat n = ''from''" by auto
    with show_nat_not_from show False by blast
  qed
  then have "''from'' \<notin> fst ` set (zip (map show_nat ns) vs)"
    by (auto dest: set_zip_leftD)
  then show ?thesis by (simp add: map_of_eq_None_iff)
qed

lemma render_item_no_from:
  assumes "map_of c ''from'' = None \<or> map_of c ''from'' = Some (Data JNull)"
  shows "render_item c = Inl TypeError"
  using assms by (auto simp: render_item_def read_prop_def and_then_def)

lemma render_item_no_to:
  assumes "map_of c ''to'' = None \<or> map_of c ''to'' = Some (Data JNull)"
  shows "render_item c \<noteq> Inr ()"
proof
  assume "render_item c = Inr ()"
  then obtain x where "read_prop (map_of c ''to'') ''currency'' = Inr x"
    unfolding render_item_def by (blast dest!: and_then_Inr)
  with assms show False by (auto simp: read_prop_def)
qed

lemma render_item_invalid_date:
  assumes "map_of c ''timestamp'' = Some (DateObj None)"
  shows "render_item c \<noteq> Inr ()"
proof
  assume "render_item c = Inr ()"
  then have "\<exists>u. formatDateTime (map_of c ''timestamp'') = Inr u"
    unfolding render_item_def by (blast dest!: and_then_Inr)
  with assms show False by (simp add: formatDateTime_def)
qed

lemma revive_fields:
  assumes "revive l item = Inr c"
  shows "map_of c ''from'' = (case item of JObj kvs \<Rightarrow> map_option Data (map_of kvs ''from'') | _ \<Rightarrow> None)"
    and "map_of c ''to'' = (case item of JObj kvs \<Rightarrow> map_option Data (map_of kvs ''to'')
                              | _ \<Rightarrow> map_of (spread item) ''to'')"
    and "\<exists>d. Date_new l (case item of JObj kvs \<Rightarrow> map_of kvs ''timestamp'' | _ \<Rightarrow> None) = Inr d \<and>
             map_of c ''timestamp'' = Some (DateObj d)"
proof -
  from assms obtain d where
    d: "Date_new l (case item of JObj kvs \<Rightarrow> map_of kvs ''timestamp'' | _ \<Rightarrow> None) = Inr d"
    and c: "c = AList.update ''timestamp'' (DateObj d) (spread item)"
    by (cases item) (auto simp: revive_def dest!: and_then_Inr)
  have m: "map_of c = (map_of (spread item))(''timestamp'' \<mapsto> DateObj d)"
    unfolding c by (rule update_conv')
  show "map_of c ''from'' = (case item of JObj kvs \<Rightarrow> map_option Data (map_of kvs ''from'') | _ \<Rightarrow> None)"
    unfolding m by (cases item) (simp_all add: spread_def map_of_spread_obj map_of_indices)
  show "map_of c ''to'' = (case item of JObj kvs \<Rightarrow> map_option Data (map_of kvs ''to'')
                              | _ \<Rightarrow> map_of (spread item) ''to'')"
    unfolding m by (cases item) (simp_all add: spread_def map_of_spread_obj)
  show "\<exists>d. Date_new l (case item of JObj kvs \<Rightarrow> map_of kvs ''timestamp'' | _ \<Rightarrow> None) = Inr d \<and>
             map_of c ''timestamp'' = Some (DateObj d)"
    using d m by simp
qed

text \<open>
  C6, as amended. \<^verbatim>\<open>loadHistoryFromStorage\<close> never throws. It leaves the history
  empty when the stored text is absent or the empty string and the history was empty (as
  it is at startup), when the text is not JSON, when it is the JSON of a value that is no
  array, and when it is the JSON of an array with an item that is not an object or that
  has no \<^verbatim>\<open>from\<close> or no \<^verbatim>\<open>to\<close> (or \<^verbatim>\<open>null\<close> for one of them). For the JSON of an
  array in general: when the callback of the load or the rendering of the list throws for
  one of the items, the history is left empty; when neither throws for any item, the
  history is the list of the records made of the items, whether or not they are records
  of conversions.
\<close>

theorem malformed_load_empty:
  "fst (loadHistoryFromStorage l s) = Inr () \<and>
   ((conversionHistoryData s = None \<or> conversionHistoryData s = Some EmptyText) \<and>
      conversionHistory s = [] \<longrightarrow>
      conversionHistory (snd (loadHistoryFromStorage l s)) = []) \<and>
   (conversionHistoryData s = Some MalformedText \<longrightarrow>
      conversionHistory (snd (loadHistoryFromStorage l s)) = []) \<and>
   (\<forall>v. conversionHistoryData s = Some (JsonText v) \<and> (case v of JArr items \<Rightarrow> False | _ \<Rightarrow> True) \<longrightarrow>
      conversionHistory (snd (loadHistoryFromStorage l s)) = []) \<and>
   (\<forall>items. conversionHistoryData s = Some (JsonText (JArr items)) \<and>
      (\<exists>item \<in> set items.
         case item of
           JObj kvs \<Rightarrow> map_of kvs ''from'' \<in> {None, Some JNull} \<or> map_of kvs ''to'' \<in> {None, Some JNull}
         | _ \<Rightarrow> True) \<longrightarrow>
      conversionHistory (snd (loadHistoryFromStorage l s)) = []) \<and>
   (\<forall>items. conversionHistoryData s = Some (JsonText (JArr items)) \<and>
      (case revive_all l items of Inl e \<Rightarrow> True | Inr h \<Rightarrow> render_items h \<noteq> Inr ()) \<longrightarrow>
      conversionHistory (snd (loadHistoryFromStorage l s)) = []) \<and>
   (\<forall>items h. conversionHistoryData s = Some (JsonText (JArr items)) \<and>
      revive_all l items = Inr h \<and> render_items h = Inr () \<longrightarrow>
      conversionHistory (snd (loadHistoryFromStorage l s)) = h)"
proof (intro conjI allI impI)
  show "fst (loadHistoryFromStorage l s) = Inr ()"
    by (rule loadHistoryFromStorage_returns)
next
  fix items
  assume a: "conversionHistoryData s = Some (JsonText (JArr items)) \<and>
      (case revive_all l items of Inl e \<Rightarrow> True | Inr h \<Rightarrow> render_items h \<noteq> Inr ())"
  show "conversionHistory (snd (loadHistoryFromStorage l s)) = []"
  proof (cases "revive_all l items")
    case (Inl e)
    with a have "fst (loadHistoryFromStorage_try l s) = Inl e"
      by (simp add: loadHistoryFromStorage_try_def JSON_parse_def)
    then show ?thesis by (rule loadHistoryFromStorage_caught)
  next
    case (Inr h)
    with a have "render_items h \<noteq> Inr ()" by simp
    then obtain e where "render_items h = Inl e" by (cases "render_items h") auto
    then have "render_items (conversionHistory (s\<lparr>conversionHistory := h\<rparr>)) = Inl e" by simp
    from updateHistoryDisplay_Inl [OF this] a Inr
    have "fst (loadHistoryFromStorage_try l s) = Inl e"
      by (simp add: loadHistoryFromStorage_try_def JSON_parse_def)
    then show ?thesis by (rule loadHistoryFromStorage_caught)
  qed
next
  fix items h
  assume a: "conversionHistoryData s = Some (JsonText (JArr items)) \<and>
      revive_all l items = Inr h \<and> render_items h = Inr ()"
  then have "render_items (conversionHistory (s\<lparr>conversionHistory := h\<rparr>)) = Inr ()" by simp
  from updateHistoryDisplay_Inr [OF this] a
  have "loadHistoryFromStorage_try l s = (Inr (), s\<lparr>conversionHistory := h, historyList := h\<rparr>)"
    by (simp add: loadHistoryFromStorage_try_def JSON_parse_def)
  then show "conversionHistory (snd (loadHistoryFromStorage l s)) = h"
    by (simp add: loadHistoryFromStorage_def)
next
  assume "(conversionHistoryData s = None \<or> conversionHistoryData s = Some EmptyText) \<and>
      conversionHistory s = []"
  then show "conversionHistory (snd (loadHistoryFromStorage l s)) = []"
    by (auto simp: loadHistoryFromStorage_def loadHistoryFromStorage_try_def updateHistoryDisplay_def)
next
  assume "conversionHistoryData s = Some MalformedText"
  then have "fst (loadHistoryFromStorage_try l s) = Inl SyntaxError"
    by (simp add: loadHistoryFromStorage_try_def JSON_parse_def)
  then show "conversionHistory (snd (loadHistoryFromStorage l s)) = []"
    by (rule loadHistoryFromStorage_caught)
next
  fix v
  assume "conversionHistoryData s = Some (JsonText v) \<and> (case v of JArr items \<Rightarrow> False | _ \<Rightarrow> True)"
  then have "fst (loadHistoryFromStorage_try l s) = Inl TypeError"
    by (cases v) (simp_all add: loadHistoryFromStorage_try_def JSON_parse_def)
  then show "conversionHistory (snd (loadHistoryFromStorage l s)) = []"
    by (rule loadHistoryFromStorage_caught)
next
  fix items
  assume a: "conversionHistoryData s = Some (JsonText (JArr items)) \<and>
      (\<exists>item \<in> set items.
         case item of
           JObj kvs \<Rightarrow> map_of kvs ''from'' \<in> {None, Some JNull} \<or> map_of kvs ''to'' \<in> {None, Some JNull}
         | _ \<Rightarrow> True)"
  then obtain item where i: "item \<in> set items"
    and b: "case item of
           JObj kvs \<Rightarrow> map_of kvs ''from'' \<in> {None, Some JNull} \<or> map_of kvs ''to'' \<in> {None, Some JNull}
         | _ \<Rightarrow> True"
    by blast
  have "render_item c \<noteq> Inr ()" if r: "revive l item = Inr c" for c
  proof (cases "\<exists>kvs. item = JObj kvs")
    case False
    then have "map_of c ''from'' = None"
      using revive_fields(1) [OF r] by (cases item) simp_all
    then show ?thesis by (simp add: render_item_no_from)
  next
    case True
    then obtain kvs where k: "item = JObj kvs" by blast
    with b have "map_of kvs ''from'' \<in> {None, Some JNull} \<or> map_of kvs ''to'' \<in> {None, Some JNull}"
      by simp
    then have "(map_of c ''from'' = None \<or> map_of c ''from'' = Some (Data JNull)) \<or>
               (map_of c ''to'' = None \<or> map_of c ''to'' = Some (Data JNull))"
      using revive_fields(1,2) [OF r] k by auto
    then show ?thesis
      using render_item_no_from [of c] render_item_no_to [of c] by auto
  qed
  with a i show "conversionHistory (snd (loadHistoryFromStorage l s)) = []"
    by (intro load_array [of s items item l]) auto
qed

theorem malformed_load_empty_witness:
  "conversionHistory (snd (loadHistoryFromStorage example_lib initial)) = [] \<and>
   conversionHistory (snd (loadHistoryFromStorage example_lib
      (cached\<lparr>conversionHistory := two_records, conversionHistoryData := Some MalformedText\<rparr>))) = [] \<and>
   conversionHistory (snd (loadHistoryFromStorage example_lib
      (cached\<lparr>conversionHistory := two_records,
              conversionHistoryData := Some (JsonText (JObj [(''map'', JNum (Fin 1))]))\<rparr>))) = [] \<and>
   conversionHistory (snd (loadHistoryFromStorage example_lib
      (cached\<lparr>conversionHistory := two_records,
              conversionHistoryData :=
                Some (JsonText (JArr [record_json ''2024-01-01T00:00:00.000Z'', JNum (Fin 7)]))\<rparr>))) = [] \<and>
   revive_all example_lib [unconvertible] =
     Inr [[(''from'', Data (JObj [(''currency'', JObj [(''toString'', JNull)])])),
           (''to'', Data (JObj [])), (''timestamp'', DateObj (Some 0))]] \<and>
   render_items [[(''from'', Data (JObj [(''currency'', JObj [(''toString'', JNull)])])),
                  (''to'', Data (JObj [])), (''timestamp'', DateObj (Some 0))]] = Inl TypeError \<and>
   conversionHistory (snd (loadHistoryFromStorage example_lib
      (cached\<lparr>conversionHistory := two_records,
              conversionHistoryData := Some (JsonText (JArr [unconvertible]))\<rparr>))) = [] \<and>
   revive_all example_lib [JObj [(''from'', JObj []), (''to'', JObj []), (''timestamp'', JNum (Fin 0))]] =
     Inr [[(''from'', Data (JObj [])), (''to'', Data (JObj [])), (''timestamp'', DateObj (Some 0))]] \<and>
   render_items [[(''from'', Data (JObj [])), (''to'', Data (JObj [])),
                  (''timestamp'', DateObj (Some 0))]] = Inr () \<and>
   conversionHistory (snd (loadHistoryFromStorage example_lib
      (cached\<lparr>conversionHistory := two_records, conversionHistoryData := Some misshapen\<rparr>))) =
     [[(''from'', Data (JObj [])), (''to'', Data (JObj [])), (''timestamp'', DateObj (Some 0))]]"
proof -
  have 1: "(conversionHistoryData initial = None \<or> conversionHistoryData initial = Some EmptyText) \<and>
           conversionHistory initial = []"
    by (simp add: initial_def)
  let ?s2 = "cached\<lparr>conversionHistory := two_records, conversionHistoryData := Some MalformedText\<rparr>"
  have 2: "conversionHistoryData ?s2 = Some MalformedText" by simp
  let ?v = "JObj [(''map'', JNum (Fin 1))]"
  let ?s3 = "cached\<lparr>conversionHistory := two_records, conversionHistoryData := Some (JsonText ?v)\<rparr>"
  have 3: "conversionHistoryData ?s3 = Some (JsonText ?v) \<and> (case ?v of JArr items \<Rightarrow> False | _ \<Rightarrow> True)"
    by simp
  let ?items = "[record_json ''2024-01-01T00:00:00.000Z'', JNum (Fin 7)]"
  let ?s4 = "cached\<lparr>conversionHistory := two_records,
                    conversionHistoryData := Some (JsonText (JArr ?items))\<rparr>"
  have 4: "conversionHistoryData ?s4 = Some (JsonText (JArr ?items)) \<and>
      (\<exists>item \<in> set ?items.
         case item of
           JObj kvs \<Rightarrow> map_of kvs ''from'' \<in> {None, Some JNull} \<or> map_of kvs ''to'' \<in> {None, Some JNull}
         | _ \<Rightarrow> True)"
    by simp
  let ?h5 = "[[(''from'', Data (JObj [(''currency'', JObj [(''toString'', JNull)])])),
               (''to'', Data (JObj [])), (''timestamp'', DateObj (Some 0))]]"
  let ?s5 = "cached\<lparr>conversionHistory := two_records,
                    conversionHistoryData := Some (JsonText (JArr [unconvertible]))\<rparr>"
  have 5: "revive_all example_lib [unconvertible] = Inr ?h5"
    by (simp add: unconvertible_def revive_def spread_def Date_new_def TimeClip_def and_then_def)
  have 6: "render_items ?h5 = Inl TypeError"
    by (simp add: render_item_def read_prop_def coerce_def and_then_def)
  let ?i6 = "JObj [(''from'', JObj []), (''to'', JObj []), (''timestamp'', JNum (Fin 0))]"
  let ?h6 = "[[(''from'', Data (JObj [])), (''to'', Data (JObj [])),
               (''timestamp'', DateObj (Some 0))]]"
  let ?s6 = "cached\<lparr>conversionHistory := two_records, conversionHistoryData := Some misshapen\<rparr>"
  have 7: "revive_all example_lib [?i6] = Inr ?h6"
    by (simp add: revive_def spread_def Date_new_def TimeClip_def and_then_def)
  have 8: "render_items ?h6 = Inr ()"
    by (simp add: render_item_def read_prop_def coerce_def and_then_def formatDateTime_def
        formatNumber_def)
  from malformed_load_empty [of example_lib initial] 1
  have "conversionHistory (snd (loadHistoryFromStorage example_lib initial)) = []" by blast
  moreover from malformed_load_empty [of example_lib ?s2] 2
  have "conversionHistory (snd (loadHistoryFromStorage example_lib ?s2)) = []" by blast
  moreover from malformed_load_empty [of example_lib ?s3] 3
  have "conversionHistory (snd (loadHistoryFromStorage example_lib ?s3)) = []" by blast
  moreover from malformed_load_empty [of example_lib ?s4] 4
  have "conversionHistory (snd (loadHistoryFromStorage example_lib ?s4)) = []" by blast
  moreover note 5 6
  moreover from malformed_load_empty [of example_lib ?s5] 5 6
  have "conversionHistory (snd (loadHistoryFromStorage example_lib ?s5)) = []" by simp
  moreover note 7 8
  moreover from malformed_load_empty [of example_lib ?s6] 7 8
  have "conversionHistory (snd (loadHistoryFromStorage example_lib ?s6)) = ?h6"
    by (simp add: misshapen_def)
  ultimately show ?thesis by (simp only: misshapen_def simp_thms)
qed

text \<open>
  C6 as stated fails for a text of valid JSON that is not the JSON of a history: the
  array of the one item \<^verbatim>\<open>{"from":{},"to":{},"timestamp":0}\<close> is loaded as a history of
  one record.
\<close>

theorem misshapen_counterexample:
  "conversionHistory
     (snd (loadHistoryFromStorage example_lib (initial\<lparr>conversionHistoryData := Some misshapen\<rparr>))) =
   [[(''from'', Data (JObj [])), (''to'', Data (JObj [])), (''timestamp'', DateObj (Some 0))]]"
  by (simp add: loadHistoryFromStorage_def loadHistoryFromStorage_try_def misshapen_def initial_def
      JSON_parse_def revive_def spread_def Date_new_def TimeClip_def and_then_def
      updateHistoryDisplay_def render_item_def read_prop_def coerce_def formatDateTime_def
      formatNumber_def)

text \<open>
  C7, as amended. When the stored text is the JSON of an array and the timestamp of one
  of its records gives no valid date, the load does not throw and leaves the history
  empty: no record is loaded, whatever the other records are.
\<close>

theorem invalid_timestamp_empties:
  assumes "conversionHistoryData s = Some (JsonText (JArr items))"
    and "JObj kvs \<in> set items"
    and "\<forall>t. Date_new l (map_of kvs ''timestamp'') \<noteq> Inr (Some t)"
  shows "fst (loadHistoryFromStorage l s) = Inr () \<and>
         conversionHistory (snd (loadHistoryFromStorage l s)) = []"
proof
  show "fst (loadHistoryFromStorage l s) = Inr ()"
    by (rule loadHistoryFromStorage_returns)
  have "render_item c \<noteq> Inr ()" if r: "revive l (JObj kvs) = Inr c" for c
  proof -
    from revive_fields(3) [OF r] obtain d where
      "Date_new l (map_of kvs ''timestamp'') = Inr d" "map_of c ''timestamp'' = Some (DateObj d)"
      by auto
    with assms(3) have "map_of c ''timestamp'' = Some (DateObj None)"
      by (cases d) auto
    then show ?thesis by (rule render_item_invalid_date)
  qed
  with assms(1,2) show "conversionHistory (snd (loadHistoryFromStorage l s)) = []"
    by (intro load_array [of s items "JObj kvs" l]) auto
qed

theorem invalid_timestamp_empties_witness:
  "one_bad_timestamp = JsonText (JArr [record_json ''not a date'', record_json ''2024-01-01T00:00:00.000Z'']) \<and>
   Date_new example_lib (Some (JStr ''not a date'')) = Inr None \<and>
   conversionHistory
     (snd (loadHistoryFromStorage example_lib (initial\<lparr>conversionHistoryData := Some one_bad_timestamp\<rparr>)))
     = []"
proof -
  let ?kvs = "[(''from'', JObj [(''amount'', JNum (Fin 1)), (''currency'', JStr ''USD'')]),
           (''to'', JObj [(''amount'', JNum (Fin 15000)), (''currency'', JStr ''IDR'')]),
           (''rate'', JNum (Fin 15000)),
           (''timestamp'', JStr ''not a date'')]"
  let ?items = "[record_json ''not a date'', record_json ''2024-01-01T00:00:00.000Z'']"
  have a: "conversionHistoryData (initial\<lparr>conversionHistoryData := Some one_bad_timestamp\<rparr>) =
           Some (JsonText (JArr ?items))"
    by (simp add: one_bad_timestamp_def)
  have b: "JObj ?kvs \<in> set ?items" by (simp add: record_json_def)
  have d: "Date_new example_lib (Some (JStr ''not a date'')) = Inr None"
    by (simp add: Date_new_def example_lib_def)
  then have c: "\<forall>t. Date_new example_lib (map_of ?kvs ''timestamp'') \<noteq> Inr (Some t)" by simp
  from invalid_timestamp_empties [OF a b c] d show ?thesis
    by (simp add: one_bad_timestamp_def)
qed

text \<open>
  C7 as stated fails: \<^verbatim>\<open>not a date\<close> does not parse; the second record of
  \<open>one_bad_timestamp\<close>, stored alone, is loaded; stored after the record with the bad
  timestamp it is not what the load leaves.
\<close>

theorem bad_timestamp_counterexample:
  "Date_parse example_lib ''not a date'' = None \<and>
   conversionHistory
     (snd (loadHistoryFromStorage example_lib
        (initial\<lparr>conversionHistoryData :=
           Some (JsonText (JArr [record_json ''2024-01-01T00:00:00.000Z'']))\<rparr>))) =
     [conversion_record (Fin 1) ''USD'' (Fin 15000) ''IDR'' 15000 1704067200000] \<and>
   conversionHistory
     (snd (loadHistoryFromStorage example_lib (initial\<lparr>conversionHistoryData := Some one_bad_timestamp\<rparr>)))
     \<noteq> [conversion_record (Fin 1) ''USD'' (Fin 15000) ''IDR'' 15000 1704067200000]"
  by (simp add: loadHistoryFromStorage_def loadHistoryFromStorage_try_def one_bad_timestamp_def
      record_json_def initial_def example_lib_def conversion_record_def
      JSON_parse_def revive_def spread_def Date_new_def and_then_def
      updateHistoryDisplay_def render_item_def read_prop_def coerce_def formatDateTime_def
      formatNumber_def)

end
